theory Spec2Isabelle
  imports Main "HOL-Library.Sublist"
begin

section \<open>Weekly dinner suggestions: URL list, title fetching, LLM call, e-mail\<close>

text \<open>
  A shallow embedding of \<^verbatim>\<open>weekly_meal_plan_llm_v2.py\<close>. Python strings are modelled as
  \<^typ>\<open>string\<close>, one \<^typ>\<open>char\<close> per code point, so the model covers texts whose code points
  are below 256 (ASCII and Latin-1). The one character of the source outside that range,
  the em dash U+2014, stands as the three bytes of its UTF-8 encoding.

  Functions that raise return a sum, \<open>Inl\<close> the exception. Functions with effects return
  the list of their effects, in order, beside their result. What the libraries and the
  outside world answer (the environment, the recipes file, HTTP responses, the HTML
  parser, the SMTP server, the date) is read from a record of the run's surroundings.
  Exceptions of the libraries are modelled where the script can meet them on well-formed
  input: a recipes file that exists is readable, and a JSON response has the shape the
  Responses API documents (an optional list of output items, each with an optional list
  of content parts, and an optional top-level text).
\<close>

subsection \<open>Python string operations used by the script\<close>

text \<open>\<^verbatim>\<open>str.isspace\<close> on one code point below 256.\<close>

definition is_space :: "char \<Rightarrow> bool" where
  "is_space c =
     (let n = (of_char c :: nat)
      in (9 \<le> n \<and> n \<le> 13) \<or> (28 \<le> n \<and> n \<le> 32) \<or> n = 133 \<or> n = 160)"

definition lstrip :: "string \<Rightarrow> string" where
  "lstrip s = dropWhile is_space s"

definition rstrip :: "string \<Rightarrow> string" where
  "rstrip s = rev (dropWhile is_space (rev s))"

text \<open>\<^verbatim>\<open>s.strip()\<close>: leading and trailing whitespace removed.\<close>

definition strip :: "string \<Rightarrow> string" where
  "strip s = rstrip (lstrip s)"

text \<open>\<^verbatim>\<open>str.lower\<close> on one code point below 256: A to Z and the Latin-1 capitals.\<close>

definition lower_char :: "char \<Rightarrow> char" where
  "lower_char c =
     (let n = (of_char c :: nat)
      in if (65 \<le> n \<and> n \<le> 90) \<or> (192 \<le> n \<and> n \<le> 222 \<and> n \<noteq> 215)
         then char_of (n + 32) else c)"

definition lower :: "string \<Rightarrow> string" where
  "lower s = map lower_char s"

text \<open>\<^verbatim>\<open>s.startswith(p)\<close>.\<close>

definition startswith :: "string \<Rightarrow> string \<Rightarrow> bool" where
  "startswith s p = prefix p s"

text \<open>\<^verbatim>\<open>k in hay\<close> on strings: \<open>k\<close> occurs in \<open>hay\<close> at some position.\<close>

fun str_contains :: "string \<Rightarrow> string \<Rightarrow> bool" where
  "str_contains k [] = (k = [])"
| "str_contains k (c # cs) = (prefix k (c # cs) \<or> str_contains k cs)"

text \<open>\<^verbatim>\<open>sep.join(parts)\<close>.\<close>

fun join :: "string \<Rightarrow> string list \<Rightarrow> string" where
  "join sep [] = []"
| "join sep [x] = x"
| "join sep (x # y # ys) = x @ sep @ join sep (y # ys)"

subsection \<open>Errors\<close>

text \<open>
  The exceptions that leave a function of the script. \<open>RuntimeError\<close> carries the
  message the script raises it with; the others are raised by the libraries it calls
  (\<^verbatim>\<open>int\<close>, \<^verbatim>\<open>requests\<close>, \<^verbatim>\<open>bs4\<close>, \<^verbatim>\<open>smtplib\<close>).
\<close>

datatype error =
    RuntimeError string
  | ValueError
  | RequestException
  | HTTPError int
  | ParserError
  | InvalidJSON
  | SMTPException

subsection \<open>URL list and filtering\<close>

text \<open>
  \<^verbatim>\<open>urllib.parse.urlparse\<close> belongs to the Python standard library, not to the script.
  The functions below take the parser as the argument \<open>parse\<close>: \<open>None\<close> stands for the
  \<^verbatim>\<open>ValueError\<close> it raises on a URL it rejects (a malformed bracketed host); of its result
  only the fields \<open>path\<close> and \<open>query\<close> are read.
\<close>

record parse_result =
  path :: string
  query :: string

definition DEFAULT_URLS :: "string list" where
  "DEFAULT_URLS = []"

text \<open>
  The source's \<^verbatim>\<open>DESSERT_KEYWORDS\<close> is a set; \<^verbatim>\<open>any\<close> over it is a disjunction, so the
  order of the list below does not matter.
\<close>

definition DESSERT_KEYWORDS :: "string list" where
  "DESSERT_KEYWORDS =
     [''cookie'', ''cookies'', ''cake'', ''brownie'', ''brownies'', ''muffin'', ''muffins'',
      ''banana-bread'', ''bananabread'', ''banana_bread'', ''loaf'', ''cupcake'', ''cupcakes'',
      ''slice'', ''biscuit'', ''biscuits'', ''pudding'', ''pie'', ''tart'', ''donut'', ''doughnut'',
      ''fudge'', ''ice-cream'', ''icecream'', ''gelato'', ''sweet'', ''dessert'',
      ''chocolate'', ''nutella'', ''caramel'', ''smoothie'']"

text \<open>
  \<^verbatim>\<open>is_probably_sweet_url\<close>: the parser's \<^verbatim>\<open>ValueError\<close> is not caught (line 62), so it
  leaves the function.
\<close>

definition is_probably_sweet_url ::
  "(string \<Rightarrow> parse_result option) \<Rightarrow> string \<Rightarrow> error + bool" where
  "is_probably_sweet_url parse url =
     (case parse url of
        None \<Rightarrow> Inl ValueError
      | Some p \<Rightarrow>
          (let hay = lower (path p @ '' '' @ query p)
           in Inr (list_ex (\<lambda>k. str_contains k hay) DESSERT_KEYWORDS)))"

text \<open>
  The de-duplication loop of \<^verbatim>\<open>load_recipe_urls\<close>: \<open>seen\<close> is the set, \<open>out\<close> the list
  built so far.
\<close>

fun dedupe_loop :: "string set \<Rightarrow> string list \<Rightarrow> string list \<Rightarrow> string list" where
  "dedupe_loop seen out [] = out"
| "dedupe_loop seen out (u # us) =
     (if u \<notin> seen then dedupe_loop (insert u seen) (out @ [u]) us
      else dedupe_loop seen out us)"

definition dedupe :: "string list \<Rightarrow> string list" where
  "dedupe urls = dedupe_loop {} [] urls"

text \<open>
  What the script reads from its surroundings. \<open>environ\<close> is the process environment;
  \<open>default_recipes_file\<close> is the path of \<^verbatim>\<open>recipes.txt\<close> beside the script; \<open>files\<close> maps
  the path of an existing, readable text file to its lines as iteration over the open
  file yields them (a path outside its domain does not exist).
\<close>

record filesystem =
  environ :: "string \<rightharpoonup> string"
  default_recipes_file :: string
  files :: "string \<rightharpoonup> string list"

text \<open>\<^verbatim>\<open>os.getenv(name, default)\<close>.\<close>

definition getenv :: "'a filesystem_scheme \<Rightarrow> string \<Rightarrow> string \<Rightarrow> string" where
  "getenv w name dflt = (case environ w name of None \<Rightarrow> dflt | Some v \<Rightarrow> v)"

text \<open>The path the recipes are read from: \<^verbatim>\<open>RECIPES_FILE\<close> unless it is unset or empty.\<close>

definition recipes_file :: "'a filesystem_scheme \<Rightarrow> string" where
  "recipes_file w =
     (case environ w ''RECIPES_FILE'' of
        None \<Rightarrow> default_recipes_file w
      | Some f \<Rightarrow> if f = [] then default_recipes_file w else f)"

text \<open>The loop over the lines of the file: trimmed, blank and comment lines skipped.\<close>

fun read_lines :: "string list \<Rightarrow> string list" where
  "read_lines [] = []"
| "read_lines (line # rest) =
     (let line = strip line
      in if line = [] \<or> startswith line ''#'' then read_lines rest
         else line # read_lines rest)"

definition raw_urls :: "'a filesystem_scheme \<Rightarrow> string list" where
  "raw_urls w =
     (case files w (recipes_file w) of
        Some ls \<Rightarrow> read_lines ls
      | None \<Rightarrow> DEFAULT_URLS)"

text \<open>Line 82 of the source: the entries that start with \<^verbatim>\<open>http\<close>, trimmed.\<close>

definition http_urls :: "string list \<Rightarrow> string list" where
  "http_urls urls = map strip (filter (\<lambda>u. u \<noteq> [] \<and> startswith (strip u) ''http'') urls)"

definition include_sweets :: "'a filesystem_scheme \<Rightarrow> bool" where
  "include_sweets w = (strip (getenv w ''INCLUDE_SWEETS'' []) = ''1'')"

text \<open>
  Line 86 of the source, the comprehension that drops the sweet URLs: the URLs are tested
  in order, and an exception of a test leaves the comprehension.
\<close>

fun drop_sweets :: "(string \<Rightarrow> parse_result option) \<Rightarrow> string list \<Rightarrow> error + string list" where
  "drop_sweets parse [] = Inr []"
| "drop_sweets parse (u # us) =
     (case is_probably_sweet_url parse u of
        Inl e \<Rightarrow> Inl e
      | Inr sweet \<Rightarrow>
          (case drop_sweets parse us of
             Inl e \<Rightarrow> Inl e
           | Inr rest \<Rightarrow> Inr (if \<not> sweet then u # rest else rest)))"

definition load_recipe_urls ::
  "(string \<Rightarrow> parse_result option) \<Rightarrow> 'a filesystem_scheme \<Rightarrow> error + string list" where
  "load_recipe_urls parse w =
     (let urls = raw_urls w;
          urls = http_urls urls
      in case (if \<not> include_sweets w then drop_sweets parse urls else Inr urls) of
           Inl e \<Rightarrow> Inl e
         | Inr urls \<Rightarrow> Inr (dedupe urls))"

subsection \<open>Python integer conversions\<close>

text \<open>\<^verbatim>\<open>str(n)\<close> for an integer: its decimal digits, with a minus sign when negative.\<close>

fun digits :: "nat \<Rightarrow> string" where
  "digits n =
     (if n < 10 then [char_of (48 + n)]
      else digits (n div 10) @ [char_of (48 + n mod 10)])"

declare digits.simps [simp del]

definition py_str :: "int \<Rightarrow> string" where
  "py_str n = (if n < 0 then ''-'' @ digits (nat (- n)) else digits (nat n))"

definition is_digit :: "char \<Rightarrow> bool" where
  "is_digit c = (let n = (of_char c :: nat) in 48 \<le> n \<and> n \<le> 57)"

text \<open>
  The digit part of an integer literal as \<^verbatim>\<open>int(s)\<close> accepts it: decimal digits, with
  single underscores allowed between two digits.
\<close>

fun digits_ok :: "string \<Rightarrow> bool" where
  "digits_ok [] = False"
| "digits_ok [c] = is_digit c"
| "digits_ok (c # d # r) =
     (is_digit c \<and> (if d = CHR ''_'' then r \<noteq> [] \<and> digits_ok r else digits_ok (d # r)))"

definition digits_value :: "string \<Rightarrow> nat" where
  "digits_value ds = foldl (\<lambda>acc c. 10 * acc + (of_char c - 48)) 0 (filter (\<lambda>c. c \<noteq> CHR ''_'') ds)"

text \<open>
  \<^verbatim>\<open>int(s)\<close> on a string; \<open>None\<close> stands for the \<^verbatim>\<open>ValueError\<close> it raises, on a
  malformed literal and on one of more than 4300 digits (CPython's default limit for the
  conversion).
\<close>

definition py_int :: "string \<Rightarrow> int option" where
  "py_int s0 =
     (let s = strip s0;
          (neg, ds) = (case s of
                         [] \<Rightarrow> (False, [])
                       | c # r \<Rightarrow> if c = CHR ''-'' then (True, r)
                                 else if c = CHR ''+'' then (False, r)
                                 else (False, s))
      in if digits_ok ds \<and> length (filter (\<lambda>c. c \<noteq> CHR ''_'') ds) \<le> 4300
         then Some (if neg then - int (digits_value ds) else int (digits_value ds))
         else None)"

subsection \<open>Data and observable effects\<close>

record LinkMeta =
  url :: string
  title :: string

text \<open>The JSON body posted to the Responses API.\<close>

record llm_request =
  model :: string
  input_role :: string
  input_content :: string
  temperature :: string

record email_message =
  msg_from :: string
  msg_to :: string
  msg_subject :: string
  msg_content :: string

text \<open>What the script does to the outside world, in the order it does it.\<close>

datatype event =
    Print string
  | HttpGet string int
  | Sleep
  | HttpPost string string llm_request int
  | SmtpConnect string int
  | SmtpLogin string string
  | SmtpSend email_message

text \<open>
  The outcome of \<^verbatim>\<open>requests.get\<close>: an exception, or a response with its status code and
  its text.
\<close>

datatype get_outcome = GetRaises | GetResponse int string

text \<open>
  What the script reads of a page parsed by \<^verbatim>\<open>BeautifulSoup\<close>. \<open>og_meta\<close> is the first
  \<^verbatim>\<open>meta\<close> element with \<^verbatim>\<open>property="og:title"\<close>: \<open>None\<close> when there is none, else its
  \<^verbatim>\<open>content\<close> attribute (\<open>None\<close> when it has none). \<open>title_tag\<close> is the first \<^verbatim>\<open>title\<close>
  element: \<open>None\<close> when there is none, else its \<^verbatim>\<open>.string\<close> (\<open>None\<close> when it has none).
\<close>

record soup =
  og_meta :: "string option option"
  title_tag :: "string option option"

text \<open>
  The parsed JSON of a response of the Responses API: \<open>None\<close> stands for a key that is
  absent.
\<close>

record content_part =
  part_type :: "string option"
  part_text :: "string option"

record output_item =
  content :: "content_part list option"

record response_data =
  output_items :: "output_item list option"
  output_text :: "string option"

text \<open>
  The outcome of \<^verbatim>\<open>requests.post\<close>: an exception, or a response with its status code,
  its text and its parsed JSON (\<open>None\<close> when \<^verbatim>\<open>resp.json()\<close> raises).
\<close>

datatype post_outcome = PostRaises | PostResponse int string "response_data option"

text \<open>
  The surroundings of a run: the file system and environment above, the remote hosts'
  answers, the HTML parser, the SMTP server's answers (\<open>smtp_session_ok\<close>: connecting,
  the handshake, STARTTLS and the login succeed; \<open>smtp_send_ok\<close>: the message is
  accepted) and the date \<^verbatim>\<open>time.strftime('%Y-%m-%d')\<close> returns.
\<close>

record world = filesystem +
  http_get :: "string \<Rightarrow> int \<Rightarrow> get_outcome"
  html_parser :: "string \<Rightarrow> soup option"
  http_post :: "string \<Rightarrow> string \<Rightarrow> llm_request \<Rightarrow> int \<Rightarrow> post_outcome"
  smtp_connect_ok :: "string \<Rightarrow> int \<Rightarrow> bool"
  smtp_login_ok :: "string \<Rightarrow> string \<Rightarrow> bool"
  smtp_send_ok :: "email_message \<Rightarrow> bool"
  today :: string

subsection \<open>Fetching page titles\<close>

text \<open>\<^verbatim>\<open>Response.raise_for_status\<close> of \<^verbatim>\<open>requests\<close>: it raises on a 4xx or 5xx status.\<close>

definition raise_for_status :: "int \<Rightarrow> error + unit" where
  "raise_for_status status =
     (if 400 \<le> status \<and> status < 600 then Inl (HTTPError status) else Inr ())"

text \<open>The document title branch: \<^verbatim>\<open>soup.title and soup.title.string\<close>.\<close>

definition title_of_soup :: "soup \<Rightarrow> string option" where
  "title_of_soup sp =
     (case title_tag sp of
        Some (Some s) \<Rightarrow> if s \<noteq> [] then Some (strip s) else None
      | _ \<Rightarrow> None)"

text \<open>
  The body of the \<^verbatim>\<open>try\<close> block of \<^verbatim>\<open>fetch_title\<close>: \<open>Inl\<close> an exception raised in it,
  \<open>Inr (Some t)\<close> a \<^verbatim>\<open>return t\<close>, \<open>Inr None\<close> when the block ends without returning.
\<close>

definition fetch_title_try :: "world \<Rightarrow> string \<Rightarrow> int \<Rightarrow> error + string option" where
  "fetch_title_try w u timeout =
     (case http_get w u timeout of
        GetRaises \<Rightarrow> Inl RequestException
      | GetResponse status text \<Rightarrow>
          (case raise_for_status status of
             Inl e \<Rightarrow> Inl e
           | Inr _ \<Rightarrow>
               (case html_parser w text of
                  None \<Rightarrow> Inl ParserError
                | Some sp \<Rightarrow>
                    (case og_meta sp of
                       Some (Some c) \<Rightarrow> if c \<noteq> [] then Inr (Some (strip c)) else Inr (title_of_soup sp)
                     | _ \<Rightarrow> Inr (title_of_soup sp)))))"

text \<open>
  \<^verbatim>\<open>fetch_title\<close>: \<^verbatim>\<open>except Exception: pass\<close> swallows what the block raises, and the
  function ends with \<^verbatim>\<open>return ""\<close>. The result comes with the request it made.
\<close>

definition fetch_title :: "world \<Rightarrow> string \<Rightarrow> int \<Rightarrow> string \<times> event list" where
  "fetch_title w u timeout =
     (case fetch_title_try w u timeout of
        Inl e \<Rightarrow> []
      | Inr None \<Rightarrow> []
      | Inr (Some t) \<Rightarrow> t,
      [HttpGet u timeout])"

text \<open>Python's \<^verbatim>\<open>xs[:n]\<close> and \<^verbatim>\<open>xs[n:]\<close> for an integer \<open>n\<close>.\<close>

definition slice_to :: "int \<Rightarrow> 'a list \<Rightarrow> 'a list" where
  "slice_to n xs = (if 0 \<le> n then take (nat n) xs else take (length xs - nat (- n)) xs)"

definition slice_from :: "int \<Rightarrow> 'a list \<Rightarrow> 'a list" where
  "slice_from n xs = (if 0 \<le> n then drop (nat n) xs else drop (length xs - nat (- n)) xs)"

text \<open>The first loop of \<^verbatim>\<open>build_link_metas\<close>: a fetch and a pause per URL.\<close>

fun fetch_metas :: "world \<Rightarrow> string list \<Rightarrow> LinkMeta list \<times> event list" where
  "fetch_metas w [] = ([], [])"
| "fetch_metas w (u # us) =
     (let (t, ev) = fetch_title w u 12;
          (ms, evs) = fetch_metas w us
      in (\<lparr>url = u, title = t\<rparr> # ms, ev @ [Sleep] @ evs))"

definition build_link_metas :: "world \<Rightarrow> string list \<Rightarrow> int \<Rightarrow> LinkMeta list \<times> event list" where
  "build_link_metas w urls max_to_fetch =
     (let (ms, evs) = fetch_metas w (slice_to max_to_fetch urls)
      in (ms @ map (\<lambda>u. \<lparr>url = u, title = []\<rparr>) (slice_from max_to_fetch urls), evs))"


subsection \<open>The call to the LLM\<close>

definition em_dash :: string where
  "em_dash = [CHR 0xE2, CHR 0x80, CHR 0x94]"

definition staples :: "string list" where
  "staples =
     [''salt'', ''pepper'', ''oil'', ''olive oil'', ''vegetable oil'',
      ''butter'', ''flour'', ''sugar'', ''rice'', ''pasta'', ''noodles'',
      ''bread'', ''stock cubes'', ''soy sauce'', ''vinegar'',
      ''garlic'', ''onion'', ''lemon'', ''water'']"

text \<open>One line of the links block per link: with the title when there is one.\<close>

definition link_line :: "LinkMeta \<Rightarrow> string" where
  "link_line m =
     (if title m \<noteq> [] then ''- '' @ title m @ '' '' @ em_dash @ '' '' @ url m
      else ''- '' @ url m)"

definition links_block :: "LinkMeta list \<Rightarrow> string" where
  "links_block link_metas = join ''\<newline>'' (map link_line link_metas)"

text \<open>
  The f-string of \<^verbatim>\<open>call_openai_suggestions\<close> before \<^verbatim>\<open>.strip()\<close>, in the order of the
  source and one source line per string: the opening lines, the lines between the two
  places where \<^verbatim>\<open>{meals_per_week}\<close> stands (with the joined staples \<open>st\<close>), and the closing
  lines (with the links block \<open>lb\<close>).
\<close>

definition prompt_intro :: string where
  \<open>prompt_intro = concat
     [''\<newline>'',
      ''You are helping a household with dinner ideas. You will be given a curated list of recipe links (titles included when available).\<newline>'',
      ''\<newline>'',
      ''Produce:\<newline>'',
      ''\<newline>'']\<close>

definition prompt_rules :: "string \<Rightarrow> string" where
  \<open>prompt_rules st = concat
     [''   For each suggestion:\<newline>'',
      ''   - Include the recipe title\<newline>'',
      ''   - Include the URL\<newline>'',
      ''   - Add ONE short sentence (max ~18 words) summarising what the dish is (e.g., protein + style + key flavour/ingredient).\<newline>'',
      ''\<newline>'',
      ''Rules:\<newline>'',
      ''- Choose from the provided links ONLY (do not invent URLs).\<newline>'',
      ''- Avoid desserts/sweets and avoid non-recipe pages.\<newline>'',
      ''- Keep the tone casual and framed as suggestions (not a strict day-by-day plan).\<newline>'',
      ''\<newline>'',
      ''2) A section titled "Things we'd need to have" with NO quantities.\<newline>'',
      ''   - Include only *non-staples* that someone might need to buy specially (e.g., chicken thighs, salmon, fresh herbs, coconut milk).\<newline>'',
      ''   - Do NOT include common pantry staples like: '', st, ''.\<newline>'',
      ''   - Do NOT include measurements (no grams/ml/cups/tbsp).\<newline>'',
      ''   - Group into exactly these headings:\<newline>'',
      ''     - Protein\<newline>'',
      ''     - Produce\<newline>'',
      ''     - Other\<newline>'',
      ''   - If unsure, omit.\<newline>'',
      ''\<newline>'',
      ''Output format (exact):\<newline>'',
      ''- Start with a one-line greeting.\<newline>'',
      ''- Then a section header: "Suggestions"\<newline>'']\<close>

definition prompt_layout :: "string \<Rightarrow> string" where
  \<open>prompt_layout lb = concat
     [''  "1. <Title> '', em_dash, '' <URL> '', em_dash, '' <one-sentence summary>"\<newline>'',
      ''- Then a blank line and the header: "Things we'd need to have"\<newline>'',
      ''- Then the three group headings with bullet lists.\<newline>'',
      ''- Refer to it as "our" recipe list, not "your" recipe list\<newline>'',
      ''- Use Australian names for produce, e.g. eggplant, not aubergine \<newline>'',
      ''\<newline>'',
      ''Recipe links:\<newline>'',
      lb, ''\<newline>'']\<close>

definition prompt_template :: "string \<Rightarrow> string \<Rightarrow> string \<Rightarrow> string" where
  "prompt_template n st lb =
     prompt_intro
     @ ''1) Seven *suggestions* for dinners (exactly '' @ n @ '').\<newline>''
     @ prompt_rules st
     @ ''- Then suggestions as a numbered list 1..'' @ n @ '', each on ONE line:\<newline>''
     @ prompt_layout lb"

definition build_prompt :: "LinkMeta list \<Rightarrow> int \<Rightarrow> string" where
  "build_prompt link_metas meals_per_week =
     strip (prompt_template (py_str meals_per_week) (join '', '' staples) (links_block link_metas))"

text \<open>The text parts of the response, in order (lines 208 to 212 of the source).\<close>

definition part_chunks :: "content_part \<Rightarrow> string list" where
  "part_chunks c =
     (if part_type c = Some ''output_text'' \<or> part_type c = Some ''text''
      then [case part_text c of None \<Rightarrow> [] | Some t \<Rightarrow> t]
      else [])"

definition item_chunks :: "output_item \<Rightarrow> string list" where
  "item_chunks item = concat (map part_chunks (case content item of None \<Rightarrow> [] | Some cs \<Rightarrow> cs))"

definition text_chunks :: "response_data \<Rightarrow> string list" where
  "text_chunks d = concat (map item_chunks (case output_items d of None \<Rightarrow> [] | Some its \<Rightarrow> its))"

text \<open>Lines 213 to 218: the joined text, else the fallback field, else the error.\<close>

definition extract_text :: "response_data \<Rightarrow> error + string" where
  "extract_text d =
     (let text = strip (join ''\<newline>'' (text_chunks d));
          text = (if text = []
                  then strip (case output_text d of None \<Rightarrow> [] | Some t \<Rightarrow> t)
                  else text)
      in if text = [] then Inl (RuntimeError ''OpenAI API returned no text output.'')
         else Inr text)"

definition call_openai_suggestions ::
  "world \<Rightarrow> LinkMeta list \<Rightarrow> int \<Rightarrow> (error + string) \<times> event list" where
  "call_openai_suggestions w link_metas meals_per_week =
     (let api_key = strip (getenv w ''OPENAI_API_KEY'' [])
      in if api_key = []
         then (Inl (RuntimeError ''OPENAI_API_KEY environment variable must be set.''), [])
         else
           (let mdl = strip (getenv w ''OPENAI_MODEL'' ''gpt-5.2'');
                prompt = build_prompt link_metas meals_per_week;
                api = ''https://api.openai.com/v1/responses'';
                payload = \<lparr>model = mdl, input_role = ''user'', input_content = prompt,
                           temperature = ''0.4''\<rparr>
            in (case http_post w api api_key payload 60 of
                  PostRaises \<Rightarrow> Inl RequestException
                | PostResponse status text data \<Rightarrow>
                    if status \<ge> 400
                    then Inl (RuntimeError (''OpenAI API error '' @ py_str status @ '': '' @ text))
                    else (case data of None \<Rightarrow> Inl InvalidJSON | Some d \<Rightarrow> extract_text d),
                [HttpPost api api_key payload 60])))"

subsection \<open>The e-mail\<close>

text \<open>
  \<^verbatim>\<open>len(s.splitlines()) > 1\<close>, for code points below 256: a line boundary (line feed,
  vertical tab, form feed, carriage return, the separators 0x1C to 0x1E, next line 0x85;
  a carriage return with the line feed after it counts once) with something after it.
\<close>

definition is_line_break :: "char \<Rightarrow> bool" where
  "is_line_break c =
     (let n = (of_char c :: nat) in (10 \<le> n \<and> n \<le> 13) \<or> (28 \<le> n \<and> n \<le> 30) \<or> n = 133)"

fun many_lines :: "string \<Rightarrow> bool" where
  "many_lines [] = False"
| "many_lines [c] = False"
| "many_lines (c # d # r) =
     (if c = CHR 0x0D \<and> d = CHR 0x0A then r \<noteq> []
      else if is_line_break c then True
      else many_lines (d # r))"

text \<open>
  \<^verbatim>\<open>send_email\<close>. Assigning a header of an \<^verbatim>\<open>EmailMessage\<close> (lines 238 to 240) raises
  \<^verbatim>\<open>ValueError\<close> when the value has more than one line; this happens before the SMTP
  session is opened.
\<close>

definition send_email :: "world \<Rightarrow> string \<Rightarrow> (error + unit) \<times> event list" where
  "send_email w body =
     (let email_user = strip (getenv w ''EMAIL_USER'' []);
          email_pass = strip (getenv w ''EMAIL_PASS'' []);
          email_to = strip (getenv w ''EMAIL_TO'' [])
      in if \<not> (email_user \<noteq> [] \<and> email_pass \<noteq> [] \<and> email_to \<noteq> [])
         then (Inl (RuntimeError
                 ''EMAIL_USER, EMAIL_PASS and EMAIL_TO environment variables must be set.''), [])
         else
           (let smtp_host = strip (getenv w ''SMTP_HOST'' ''smtp.gmail.com'')
            in case py_int (strip (getenv w ''SMTP_PORT'' ''587'')) of
                 None \<Rightarrow> (Inl ValueError, [])
               | Some smtp_port \<Rightarrow>
                   (let subject_prefix =
                          strip (getenv w ''EMAIL_SUBJECT_PREFIX''
                                   ''Suggestions for things to eat this week'');
                        subject = subject_prefix @ '' '' @ em_dash @ '' '' @ today w;
                        msg = \<lparr>msg_from = email_user, msg_to = email_to,
                               msg_subject = subject, msg_content = body\<rparr>
                    in if many_lines email_user \<or> many_lines email_to \<or> many_lines subject
                       then (Inl ValueError, [])
                       else if \<not> smtp_connect_ok w smtp_host smtp_port
                       then (Inl SMTPException, [SmtpConnect smtp_host smtp_port])
                       else if \<not> smtp_login_ok w email_user email_pass
                       then (Inl SMTPException,
                             [SmtpConnect smtp_host smtp_port, SmtpLogin email_user email_pass])
                       else (if smtp_send_ok w msg then Inr () else Inl SMTPException,
                             [SmtpConnect smtp_host smtp_port, SmtpLogin email_user email_pass,
                              SmtpSend msg]))))"

subsection \<open>The run\<close>

definition no_urls_message :: string where
  "no_urls_message =
     ''No recipe URLs found. Add URLs to recipes.txt (one per line) or DEFAULT_URLS in the script.''"

text \<open>
  \<^verbatim>\<open>main\<close>: \<open>Inr\<close> the exit code it returns, \<open>Inl\<close> the exception that leaves it, with
  the effects of the run in order.
\<close>

definition main ::
  "(string \<Rightarrow> parse_result option) \<Rightarrow> world \<Rightarrow> (error + int) \<times> event list" where
  "main parse w =
     (case load_recipe_urls parse w of
        Inl e \<Rightarrow> (Inl e, [])
      | Inr urls \<Rightarrow>
          if urls = [] then (Inr 2, [Print no_urls_message])
          else
            (case py_int (strip (getenv w ''MEALS_PER_WEEK'' ''7'')) of
               None \<Rightarrow> (Inl ValueError, [])
             | Some meals_per_week \<Rightarrow>
                 (let (metas, ev1) = build_link_metas w urls 60;
                      (r2, ev2) = call_openai_suggestions w metas meals_per_week
                  in case r2 of
                       Inl e \<Rightarrow> (Inl e, ev1 @ ev2)
                     | Inr body \<Rightarrow>
                         (let (r3, ev3) = send_email w body
                          in case r3 of
                               Inl e \<Rightarrow> (Inl e, ev1 @ ev2 @ ev3)
                             | Inr _ \<Rightarrow> (Inr 0, ev1 @ ev2 @ ev3)))))"

subsection \<open>Specification-level descriptions\<close>

text \<open>
  The URLs not yet seen, in order of first occurrence: the list the de-duplication loop
  appends to \<open>out\<close>.
\<close>

fun first_seen :: "string set \<Rightarrow> string list \<Rightarrow> string list" where
  "first_seen seen [] = []"
| "first_seen seen (u # us) =
     (if u \<in> seen then first_seen seen us else u # first_seen (insert u seen) us)"

text \<open>
  The loader's behaviour in the words of the specification: read lines, trim whitespace,
  skip empty lines and lines beginning with \<^verbatim>\<open>#\<close>, keep only entries whose trimmed value
  starts with \<^verbatim>\<open>http\<close>.
\<close>

definition kept_lines :: "string list \<Rightarrow> string list" where
  "kept_lines ls =
     filter (\<lambda>u. u \<noteq> [] \<and> \<not> startswith u ''#'' \<and> startswith u ''http'') (map strip ls)"

text \<open>The SMTP effects of a run: connecting, logging in, sending a message.\<close>

fun is_smtp_event :: "event \<Rightarrow> bool" where
  "is_smtp_event (SmtpConnect h p) = True"
| "is_smtp_event (SmtpLogin u p) = True"
| "is_smtp_event (SmtpSend m) = True"
| "is_smtp_event e = False"

text \<open>
  A response from which no non-empty text can be extracted: the text of every text-typed
  content part is blank, and so is the top-level fallback field when it is there.
\<close>

definition no_text :: "response_data \<Rightarrow> bool" where
  "no_text d =
     (list_all (\<lambda>x. list_all is_space x) (text_chunks d)
      \<and> (case output_text d of None \<Rightarrow> True | Some t \<Rightarrow> list_all is_space t))"

subsection \<open>A model of the URL parser\<close>

text \<open>
  \<^verbatim>\<open>urllib.parse.urlparse\<close> (CPython 3.12), after its source, as far as the path and the
  query go: leading control characters and spaces are dropped, tab, carriage return and
  line feed are removed, then the scheme, the network location, the fragment, the query
  and the parameters of the last path segment are split off. It raises \<^verbatim>\<open>ValueError\<close>
  when the network location has one square bracket without the other, and when the host
  between the brackets is rejected: \<open>host_ok\<close> stands for that check, which belongs to the
  \<^verbatim>\<open>ipaddress\<close> library (a valid IPv6 or IPvFuture literal). For code points below 256 its
  check of the normalised network location never raises. The theorems below hold for
  every parser; this one instantiates them.
\<close>

definition is_ascii_alpha :: "char \<Rightarrow> bool" where
  "is_ascii_alpha c =
     (let n = (of_char c :: nat) in (97 \<le> n \<and> n \<le> 122) \<or> (65 \<le> n \<and> n \<le> 90))"

definition is_scheme_char :: "char \<Rightarrow> bool" where
  "is_scheme_char c =
     (is_ascii_alpha c \<or> is_digit c \<or> c = CHR ''+'' \<or> c = CHR ''-'' \<or> c = CHR ''.'')"

definition uses_params :: "string list" where
  "uses_params =
     [[], ''ftp'', ''hdl'', ''prospero'', ''http'', ''imap'', ''https'', ''shttp'',
      ''rtsp'', ''rtspu'', ''sip'', ''sips'', ''mms'', ''sftp'', ''tel'']"

definition split_scheme :: "string \<Rightarrow> string \<times> string" where
  "split_scheme s =
     (let h = takeWhile (\<lambda>c. c \<noteq> CHR '':'') s
      in if CHR '':'' \<in> set s \<and> h \<noteq> [] \<and> is_ascii_alpha (hd h) \<and> list_all is_scheme_char h
         then (lower h, drop (length h + 1) s)
         else ([], s))"

text \<open>The network location and what follows it, when the text starts with two slashes.\<close>

definition split_netloc :: "string \<Rightarrow> string \<times> string" where
  "split_netloc s =
     (if take 2 s = ''//''
      then (takeWhile (\<lambda>c. c \<noteq> CHR ''/'' \<and> c \<noteq> CHR ''?'' \<and> c \<noteq> CHR ''#'') (drop 2 s),
            dropWhile (\<lambda>c. c \<noteq> CHR ''/'' \<and> c \<noteq> CHR ''?'' \<and> c \<noteq> CHR ''#'') (drop 2 s))
      else ([], s))"

text \<open>
  The bracket checks on a network location: \<open>False\<close> stands for the \<^verbatim>\<open>ValueError\<close>. The
  host is the text after the first opening bracket, up to the first closing bracket
  after it.
\<close>

definition netloc_ok :: "(string \<Rightarrow> bool) \<Rightarrow> string \<Rightarrow> bool" where
  "netloc_ok host_ok netloc =
     (let opening = CHR 0x5B \<in> set netloc;
          closing = CHR 0x5D \<in> set netloc
      in if opening \<noteq> closing then False
         else if opening \<and> closing
         then host_ok (takeWhile (\<lambda>c. c \<noteq> CHR 0x5D)
                         (drop 1 (dropWhile (\<lambda>c. c \<noteq> CHR 0x5B) netloc)))
         else True)"

definition split_params :: "string \<Rightarrow> string" where
  "split_params p =
     (if CHR ''/'' \<in> set p
      then (let seg = rev (takeWhile (\<lambda>c. c \<noteq> CHR ''/'') (rev p));
                dir = take (length p - length seg) p
            in dir @ takeWhile (\<lambda>c. c \<noteq> CHR '';'') seg)
      else takeWhile (\<lambda>c. c \<noteq> CHR '';'') p)"

definition urlparse :: "(string \<Rightarrow> bool) \<Rightarrow> string \<Rightarrow> parse_result option" where
  "urlparse host_ok s0 =
     (let s = dropWhile (\<lambda>c. (of_char c :: nat) \<le> 32) s0;
          s = filter (\<lambda>c. c \<noteq> CHR 0x09 \<and> c \<noteq> CHR 0x0A \<and> c \<noteq> CHR 0x0D) s;
          (scheme, s) = split_scheme s;
          (netloc, s) = split_netloc s
      in if \<not> netloc_ok host_ok netloc then None
         else
           (let s = takeWhile (\<lambda>c. c \<noteq> CHR ''#'') s;
                p = takeWhile (\<lambda>c. c \<noteq> CHR ''?'') s;
                q = drop 1 (dropWhile (\<lambda>c. c \<noteq> CHR ''?'') s);
                p = (if scheme \<in> set uses_params then split_params p else p)
            in Some \<lparr>path = p, query = q\<rparr>))"

text \<open>
  The bracketed hosts the examples take as valid: the IPv6 loopback address only. No
  example below has a URL with both brackets, so none depends on this choice.
\<close>

definition loopback_only :: "string \<Rightarrow> bool" where
  "loopback_only h = (h = ''::1'')"

subsection \<open>Example surroundings\<close>

text \<open>
  A run whose recipes file \<^verbatim>\<open>recipes.txt\<close> holds the lines \<open>ls\<close>, with the environment
  \<open>env\<close>, the outcome \<open>page\<close> of every page request, the outcome \<open>answer\<close> of the LLM
  request, an HTML parser that finds the whole text of a non-empty page as its Open
  Graph title, and an SMTP server that accepts everything.
\<close>

definition example_world ::
  "(string \<rightharpoonup> string) \<Rightarrow> string list \<Rightarrow> get_outcome \<Rightarrow> post_outcome \<Rightarrow> world" where
  "example_world env ls page answer =
     \<lparr>environ = env, default_recipes_file = ''recipes.txt'',
      files = [''recipes.txt'' \<mapsto> ls],
      http_get = (\<lambda>_ _. page),
      html_parser = (\<lambda>t. if t = [] then None
                          else Some \<lparr>og_meta = Some (Some t), title_tag = Some (Some ''Home'')\<rparr>),
      http_post = (\<lambda>_ _ _ _. answer),
      smtp_connect_ok = (\<lambda>_ _. True),
      smtp_login_ok = (\<lambda>_ _. True),
      smtp_send_ok = (\<lambda>_. True),
      today = ''2026-01-05''\<rparr>"

definition example_lines :: "string list" where
  "example_lines =
     [''# dinners\<newline>'', ''\<newline>'', ''http://a.example/chicken\<newline>'',
      ''  http://a.example/chicken  \<newline>'', ''ftp://c.example/stew\<newline>'',
      ''http://b.example/cake\<newline>'']"

text \<open>
  A recipes file with a line that starts with \<^verbatim>\<open>http\<close> and that the URL parser rejects
  (an opening bracket in the host without the closing one).
\<close>

definition rejected_lines :: "string list" where
  "rejected_lines = [''http://a.example/chicken\<newline>'', ''http://[::1/cake\<newline>'']"

text \<open>A response whose only text part is blank, with a part of another type beside it.\<close>

definition blank_response :: response_data where
  "blank_response =
     \<lparr>output_items =
        Some [\<lparr>content = Some [\<lparr>part_type = Some ''reasoning'', part_text = Some ''hidden''\<rparr>,
                                \<lparr>part_type = Some ''output_text'', part_text = Some ''  ''\<rparr>]\<rparr>],
      output_text = None\<rparr>"

definition text_response :: response_data where
  "text_response =
     \<lparr>output_items =
        Some [\<lparr>content = Some [\<lparr>part_type = Some ''output_text'', part_text = Some ''Hello''\<rparr>]\<rparr>],
      output_text = None\<rparr>"

text \<open>An environment with the API key and the mail settings.\<close>

definition example_env :: "string \<rightharpoonup> string" where
  "example_env =
     [''OPENAI_API_KEY'' \<mapsto> ''sk-test'', ''EMAIL_USER'' \<mapsto> ''me@a.example'',
      ''EMAIL_PASS'' \<mapsto> ''secret'', ''EMAIL_TO'' \<mapsto> ''you@a.example'']"

section \<open>Properties\<close>

subsection \<open>String operations\<close>

lemma str_contains_sublist: "str_contains k h = sublist k h"
  by (induction h) (auto simp: sublist_Cons_right)

lemma lower_append: "lower (a @ b) = lower a @ lower b"
  by (simp add: lower_def)

lemma sublist_lower: "sublist k h \<Longrightarrow> sublist (lower k) (lower h)"
  unfolding lower_def sublist_def by (metis map_append)

text \<open>
  A string without the separator \<open>c\<close> occurs in \<open>a @ [c] @ b\<close> only inside \<open>a\<close> or inside
  \<open>b\<close>: it cannot span the separator.
\<close>

lemma sublist_sep:
  assumes "c \<notin> set k" "k \<noteq> []"
  shows "sublist k (a @ [c] @ b) \<longleftrightarrow> sublist k a \<or> sublist k b"
proof
  assume "sublist k (a @ [c] @ b)"
  then obtain ps ss where eq: "a @ c # b = ps @ k @ ss"
    by (auto simp: sublist_def)
  show "sublist k a \<or> sublist k b"
  proof (cases "length ps + length k \<le> length a")
    case True
    from eq have "take (length ps + length k) (a @ c # b) = ps @ k" by simp
    with True have "take (length ps + length k) a = ps @ k" by simp
    then have "a = ps @ k @ drop (length ps + length k) a"
      by (metis append_assoc append_take_drop_id)
    then show ?thesis unfolding sublist_def by blast
  next
    case False
    show ?thesis
    proof (cases "length a < length ps")
      case True
      from eq have "drop (Suc (length a)) (a @ c # b) = drop (Suc (length a)) (ps @ k @ ss)"
        by simp
      with True have "b = drop (Suc (length a)) ps @ k @ ss" by simp
      then show ?thesis unfolding sublist_def by blast
    next
      case inside: False
      from eq have "(a @ c # b) ! length a = (ps @ k @ ss) ! length a" by simp
      moreover have lt: "length a - length ps < length k" using False inside by simp
      ultimately have "c = k ! (length a - length ps)"
        using inside by (simp add: nth_append)
      with lt have "c \<in> set k" by simp
      with assms show ?thesis by simp
    qed
  qed
next
  assume "sublist k a \<or> sublist k b"
  then show "sublist k (a @ [c] @ b)"
    unfolding sublist_def by (metis append_assoc)
qed

lemma strip_idem: "strip (strip s) = strip s"
proof -
  define a where "a = lstrip s"
  define t where "t = rstrip a"
  have a: "a = [] \<or> \<not> is_space (hd a)"
    unfolding a_def lstrip_def using hd_dropWhile [of is_space s] by blast
  have split: "a = t @ rev (takeWhile is_space (rev a))"
    unfolding t_def rstrip_def
    by (metis rev_append rev_rev_ident takeWhile_dropWhile_id)
  have "t = [] \<or> \<not> is_space (hd t)"
  proof (cases "t = []")
    case False
    then have "hd a = hd t" using split by (metis hd_append2)
    moreover have "a \<noteq> []" using False split by auto
    ultimately show ?thesis using a by simp
  qed simp
  then have l: "lstrip t = t"
    unfolding lstrip_def by (simp add: dropWhile_eq_self_iff)
  have r: "rstrip t = t"
    unfolding t_def rstrip_def by simp
  show ?thesis
    using l r unfolding strip_def t_def a_def by simp
qed
subsection \<open>De-duplication\<close>

lemma dedupe_loop_first_seen: "dedupe_loop seen out us = out @ first_seen seen us"
  by (induction us arbitrary: seen out) auto

lemma dedupe_first_seen: "dedupe urls = first_seen {} urls"
  by (simp add: dedupe_def dedupe_loop_first_seen)

lemma first_seen_Cons:
  "first_seen seen (u # us) = (if u \<in> seen then [] else [u]) @ first_seen (insert u seen) us"
  by (simp add: insert_absorb)

lemma first_seen_index:
  "first_seen seen us =
     map (\<lambda>i. us ! i) (filter (\<lambda>i. us ! i \<notin> seen \<union> set (take i us)) [0..<length us])"
proof (induction us arbitrary: seen)
  case Nil
  then show ?case by simp
next
  case (Cons u us)
  have upt: "[0..<length (u # us)] = 0 # map Suc [0..<length us]"
    by (simp add: upt_conv_Cons map_Suc_upt del: upt_Suc)
  show ?case
    unfolding upt first_seen_Cons Cons.IH [of "insert u seen"]
    by (simp add: filter_map comp_def conj_commute conj_left_commute)
qed

lemma set_first_seen: "set (first_seen seen us) = set us - seen"
  by (induction us arbitrary: seen) auto

lemma distinct_first_seen: "distinct (first_seen seen us)"
  by (induction us arbitrary: seen) (auto simp: set_first_seen)

lemma subseq_first_seen: "subseq (first_seen seen us) us"
  by (induction us arbitrary: seen) auto

lemma set_dedupe: "set (dedupe urls) = set urls"
  by (simp add: dedupe_first_seen set_first_seen)

lemma distinct_dedupe: "distinct (dedupe urls)"
  by (simp add: dedupe_first_seen distinct_first_seen)

lemma count_list_distinct:
  "distinct xs \<Longrightarrow> count_list xs u = (if u \<in> set xs then 1 else 0)"
  by (induction xs) auto

text \<open>
  C1. For every sequence of URL strings, de-duplication returns the subsequence of the
  first occurrences: the entry at position \<open>i\<close> is kept exactly when the same string
  (compared by equality of the whole string, so case-sensitively) does not occur before
  position \<open>i\<close>; the order is the input's, no string is repeated, and every string of
  the input occurs in the output.
\<close>

theorem dedupe_first_occurrences:
  "dedupe urls =
     map (\<lambda>i. urls ! i) (filter (\<lambda>i. urls ! i \<notin> set (take i urls)) [0..<length urls])
   \<and> subseq (dedupe urls) urls
   \<and> distinct (dedupe urls)
   \<and> set (dedupe urls) = set urls
   \<and> (\<forall>u. count_list (dedupe urls) u = (if u \<in> set urls then 1 else 0))"
proof -
  have "dedupe urls =
     map (\<lambda>i. urls ! i) (filter (\<lambda>i. urls ! i \<notin> set (take i urls)) [0..<length urls])"
    unfolding dedupe_first_seen first_seen_index by simp
  moreover have "subseq (dedupe urls) urls"
    unfolding dedupe_first_seen by (rule subseq_first_seen)
  moreover have "distinct (dedupe urls)" by (rule distinct_dedupe)
  moreover have "set (dedupe urls) = set urls" by (rule set_dedupe)
  moreover have "count_list (dedupe urls) u = (if u \<in> set urls then 1 else 0)" for u
    using count_list_distinct [OF distinct_dedupe, of urls u] by (simp add: set_dedupe)
  ultimately show ?thesis by blast
qed

subsection \<open>The dessert filter\<close>

lemma keywords_plain:
  "\<forall>k\<in>set DESSERT_KEYWORDS. CHR '' '' \<notin> set k \<and> k \<noteq> []"
  by (simp add: DESSERT_KEYWORDS_def)

lemma lower_space: "lower (CHR '' '' # q) = CHR '' '' # lower q"
proof -
  have "lower_char CHR '' '' = CHR '' ''" by code_simp
  then show ?thesis by (simp add: lower_def)
qed

lemma hay_split:
  assumes "k \<in> set DESSERT_KEYWORDS"
  shows "sublist k (lower (p @ '' '' @ q)) \<longleftrightarrow> sublist k (lower p) \<or> sublist k (lower q)"
proof -
  have "CHR '' '' \<notin> set k" "k \<noteq> []" using assms keywords_plain by auto
  then show ?thesis
    using sublist_sep [of "CHR '' ''" k "lower p" "lower q"]
    by (simp add: lower_append lower_space)
qed

lemma is_probably_sweet_url_None:
  "parse u = None \<Longrightarrow> is_probably_sweet_url parse u = Inl ValueError"
  by (simp add: is_probably_sweet_url_def)

lemma is_probably_sweet_url_Some:
  "parse u = Some p \<Longrightarrow>
     is_probably_sweet_url parse u =
       Inr (\<exists>k\<in>set DESSERT_KEYWORDS. sublist k (lower (path p @ '' '' @ query p)))"
  by (simp add: is_probably_sweet_url_def Let_def list_ex_iff str_contains_sublist)

lemma is_probably_sweet_url_Inl:
  "is_probably_sweet_url parse u = Inl e \<longleftrightarrow> parse u = None \<and> e = ValueError"
  by (cases "parse u") (auto simp: is_probably_sweet_url_def Let_def)

lemma chocolate_keyword: "''chocolate'' \<in> set DESSERT_KEYWORDS"
  by (simp add: DESSERT_KEYWORDS_def)

lemma lower_chocolate_brownie: "lower ''chocolate-brownie'' = ''chocolate-brownie''"
  by code_simp

lemma chocolate_in_brownie: "sublist ''chocolate'' ''chocolate-brownie''"
  by code_simp

lemma grilled_chicken_plain:
  "\<not> list_ex (\<lambda>k. str_contains k (lower ''/grilled-chicken'')) DESSERT_KEYWORDS"
  by code_simp

text \<open>
  C2, as the code has it. On a URL the parser rejects, \<open>is_probably_sweet_url\<close> raises the
  parser's \<^verbatim>\<open>ValueError\<close>. On every other URL it returns true exactly when a keyword of
  the fixed set occurs in the lower-cased string made of the URL's path, one space and
  its query; no keyword holds a space, so this is exactly when a keyword occurs in the
  lower-cased path or in the lower-cased query. A URL whose path contains
  \<^verbatim>\<open>chocolate-brownie\<close> is sweet; a URL whose path is \<^verbatim>\<open>/grilled-chicken\<close> and whose query
  matches no keyword is not. The function is a function of the parser's answer alone.
\<close>

theorem is_probably_sweet_url_keywords:
  "(parse u = None \<longrightarrow> is_probably_sweet_url parse u = Inl ValueError)
   \<and> (parse u = Some p \<longrightarrow>
        is_probably_sweet_url parse u =
          Inr (\<exists>k\<in>set DESSERT_KEYWORDS. sublist k (lower (path p @ '' '' @ query p)))
        \<and> is_probably_sweet_url parse u =
          Inr (\<exists>k\<in>set DESSERT_KEYWORDS.
                 sublist k (lower (path p)) \<or> sublist k (lower (query p))))
   \<and> (parse u1 = Some p1 \<and> sublist ''chocolate-brownie'' (path p1)
        \<longrightarrow> is_probably_sweet_url parse u1 = Inr True)
   \<and> (parse u2 = Some p2 \<and> path p2 = ''/grilled-chicken''
        \<and> \<not> (\<exists>k\<in>set DESSERT_KEYWORDS. sublist k (lower (query p2)))
      \<longrightarrow> is_probably_sweet_url parse u2 = Inr False)"
proof -
  have split: "is_probably_sweet_url parse v =
      Inr (\<exists>k\<in>set DESSERT_KEYWORDS. sublist k (lower (path q)) \<or> sublist k (lower (query q)))"
    if "parse v = Some q" for v q
    unfolding is_probably_sweet_url_Some [of parse v q, OF that] using hay_split by auto
  have brownie: "is_probably_sweet_url parse u1 = Inr True"
    if "parse u1 = Some p1" "sublist ''chocolate-brownie'' (path p1)"
  proof -
    from that(2) have "sublist ''chocolate-brownie'' (lower (path p1))"
      using sublist_lower [of "''chocolate-brownie''" "path p1"]
      by (simp only: lower_chocolate_brownie)
    with chocolate_in_brownie have "sublist ''chocolate'' (lower (path p1))"
      by (rule sublist_order.order.trans)
    with chocolate_keyword show ?thesis unfolding split [of u1 p1, OF that(1)] by auto
  qed
  have chicken: "is_probably_sweet_url parse u2 = Inr False"
    if "parse u2 = Some p2" "path p2 = ''/grilled-chicken''"
      and "\<not> (\<exists>k\<in>set DESSERT_KEYWORDS. sublist k (lower (query p2)))"
    using that(2,3) grilled_chicken_plain unfolding split [of u2 p2, OF that(1)]
    by (simp add: list_ex_iff str_contains_sublist)
  show ?thesis
    using is_probably_sweet_url_None [of parse u] is_probably_sweet_url_Some [of parse u p]
      split [of u p] brownie chicken
    by blast
qed

theorem is_probably_sweet_url_keywords_witness:
  "urlparse loopback_only ''http://[::1/cake'' = None
   \<and> is_probably_sweet_url (urlparse loopback_only) ''http://[::1/cake'' = Inl ValueError
   \<and> urlparse loopback_only ''https://example.com/recipes/Best-chocolate-brownie?ref=home'' =
       Some \<lparr>path = ''/recipes/Best-chocolate-brownie'', query = ''ref=home''\<rparr>
   \<and> is_probably_sweet_url (urlparse loopback_only)
       ''https://example.com/recipes/Best-chocolate-brownie?ref=home'' = Inr True
   \<and> urlparse loopback_only ''https://example.com/grilled-chicken'' =
       Some \<lparr>path = ''/grilled-chicken'', query = []\<rparr>
   \<and> is_probably_sweet_url (urlparse loopback_only) ''https://example.com/grilled-chicken'' =
       Inr False"
proof -
  let ?b = "''https://example.com/recipes/Best-chocolate-brownie?ref=home''"
  let ?c = "''https://example.com/grilled-chicken''"
  let ?pb = "\<lparr>path = ''/recipes/Best-chocolate-brownie'', query = ''ref=home''\<rparr>"
  let ?pc = "\<lparr>path = ''/grilled-chicken'', query = []\<rparr>"
  have r: "urlparse loopback_only ''http://[::1/cake'' = None"
    by code_simp
  have a: "urlparse loopback_only ?b = Some ?pb \<and> sublist ''chocolate-brownie'' (path ?pb)"
    by code_simp
  have b: "urlparse loopback_only ?c = Some ?pc \<and> path ?pc = ''/grilled-chicken''
      \<and> \<not> (\<exists>k\<in>set DESSERT_KEYWORDS. sublist k (lower (query ?pc)))"
    by code_simp
  show ?thesis
    using r a b
      is_probably_sweet_url_keywords [of "urlparse loopback_only" "''http://[::1/cake''" _ ?b ?pb ?c ?pc]
    by blast
qed

text \<open>
  The claim C2 as stated fails: for \<^verbatim>\<open>https://www.example.com/gp?ie=UTF8\<close> the keyword
  \<^verbatim>\<open>pie\<close> occurs in the lower-cased concatenation of the path \<^verbatim>\<open>/gp\<close> and the query
  \<^verbatim>\<open>ie=UTF8\<close>, across their boundary, and the URL is not sweet: the space the code puts
  between the two keeps a keyword from matching across it.
\<close>

theorem is_probably_sweet_url_concat_counterexample:
  "urlparse loopback_only ''https://www.example.com/gp?ie=UTF8'' =
     Some \<lparr>path = ''/gp'', query = ''ie=UTF8''\<rparr>
   \<and> ''pie'' \<in> set DESSERT_KEYWORDS
   \<and> sublist ''pie'' (lower (''/gp'' @ ''ie=UTF8''))
   \<and> is_probably_sweet_url (urlparse loopback_only) ''https://www.example.com/gp?ie=UTF8'' =
       Inr False"
proof -
  have "urlparse loopback_only ''https://www.example.com/gp?ie=UTF8'' =
     Some \<lparr>path = ''/gp'', query = ''ie=UTF8''\<rparr>"
    by code_simp
  moreover have "''pie'' \<in> set DESSERT_KEYWORDS"
    by (simp add: DESSERT_KEYWORDS_def)
  moreover have "sublist ''pie'' (lower (''/gp'' @ ''ie=UTF8''))"
    by code_simp
  moreover have "is_probably_sweet_url (urlparse loopback_only)
      ''https://www.example.com/gp?ie=UTF8'' = Inr False"
    by code_simp
  ultimately show ?thesis by simp
qed

subsection \<open>The URL loader\<close>

lemma read_lines_filter:
  "read_lines ls = filter (\<lambda>u. u \<noteq> [] \<and> \<not> startswith u ''#'') (map strip ls)"
  by (induction ls) (auto simp: Let_def)

lemma http_urls_stripped:
  "\<forall>u\<in>set xs. strip u = u \<Longrightarrow>
     http_urls xs = filter (\<lambda>u. u \<noteq> [] \<and> startswith u ''http'') xs"
  unfolding http_urls_def by (induction xs) auto

lemma http_urls_read_lines: "http_urls (read_lines ls) = kept_lines ls"
proof -
  have "\<forall>u\<in>set (read_lines ls). strip u = u"
    by (auto simp: read_lines_filter strip_idem)
  then have "http_urls (read_lines ls) =
      filter (\<lambda>u. u \<noteq> [] \<and> startswith u ''http'') (read_lines ls)"
    by (rule http_urls_stripped)
  also have "\<dots> = kept_lines ls"
    unfolding read_lines_filter kept_lines_def filter_filter
    by (rule filter_cong) auto
  finally show ?thesis .
qed

lemma kept_lines_props:
  "u \<in> set (kept_lines ls) \<longleftrightarrow>
     (\<exists>l\<in>set ls. u = strip l) \<and> u \<noteq> [] \<and> \<not> startswith u ''#'' \<and> startswith u ''http''"
  by (auto simp: kept_lines_def)

text \<open>
  The comprehension of line 86 returns exactly when the parser accepts every URL of the
  list, and then it keeps the URLs that are not sweet.
\<close>

lemma drop_sweets_accepted:
  "\<forall>u\<in>set us. parse u \<noteq> None \<Longrightarrow>
     drop_sweets parse us = Inr (filter (\<lambda>u. is_probably_sweet_url parse u = Inr False) us)"
proof (induction us)
  case Nil
  then show ?case by simp
next
  case (Cons u us)
  then obtain p where p: "parse u = Some p" by auto
  from Cons have "drop_sweets parse us =
      Inr (filter (\<lambda>u. is_probably_sweet_url parse u = Inr False) us)"
    by simp
  then show ?case
    by (simp add: is_probably_sweet_url_Some [of parse u p, OF p])
qed

lemma drop_sweets_rejected:
  "\<exists>u\<in>set us. parse u = None \<Longrightarrow> drop_sweets parse us = Inl ValueError"
proof (induction us)
  case Nil
  then show ?case by simp
next
  case (Cons u us)
  show ?case
  proof (cases "parse u")
    case None
    then show ?thesis by (simp add: is_probably_sweet_url_None)
  next
    case (Some p)
    with Cons.prems have "\<exists>v\<in>set us. parse v = None" by auto
    then have "drop_sweets parse us = Inl ValueError" by (rule Cons.IH)
    then show ?thesis
      by (simp add: is_probably_sweet_url_Some [of parse u p, OF Some])
  qed
qed

lemma include_sweets_env:
  "include_sweets w \<longleftrightarrow> (\<exists>v. environ w ''INCLUDE_SWEETS'' = Some v \<and> strip v = ''1'')"
proof -
  have "strip [] \<noteq> ''1''" by (simp add: strip_def lstrip_def rstrip_def)
  then show ?thesis
    by (cases "environ w ''INCLUDE_SWEETS''") (simp_all add: include_sweets_def getenv_def)
qed

lemma load_recipe_urls_included:
  "include_sweets w \<Longrightarrow> load_recipe_urls parse w = Inr (dedupe (http_urls (raw_urls w)))"
  by (simp add: load_recipe_urls_def)

lemma load_recipe_urls_accepted:
  assumes "\<not> include_sweets w" "\<forall>u\<in>set (http_urls (raw_urls w)). parse u \<noteq> None"
  shows "load_recipe_urls parse w =
     Inr (dedupe (filter (\<lambda>u. is_probably_sweet_url parse u = Inr False) (http_urls (raw_urls w))))"
  using assms(1) drop_sweets_accepted [OF assms(2)]
  by (simp add: load_recipe_urls_def)

lemma load_recipe_urls_rejected:
  assumes "\<not> include_sweets w" "\<exists>u\<in>set (http_urls (raw_urls w)). parse u = None"
  shows "load_recipe_urls parse w = Inl ValueError"
  using assms(1) drop_sweets_rejected [OF assms(2)]
  by (simp add: load_recipe_urls_def)

lemma raw_urls_file: "files w (recipes_file w) = Some ls \<Longrightarrow> http_urls (raw_urls w) = kept_lines ls"
  by (simp add: raw_urls_def http_urls_read_lines)

lemma raw_urls_no_file: "files w (recipes_file w) = None \<Longrightarrow> http_urls (raw_urls w) = []"
  by (simp add: raw_urls_def DEFAULT_URLS_def http_urls_def)

text \<open>Whatever the loader returns is made of URLs of the list of line 82.\<close>

lemma load_recipe_urls_subset:
  assumes "load_recipe_urls parse w = Inr urls"
  shows "set urls \<subseteq> set (http_urls (raw_urls w))"
proof (cases "include_sweets w")
  case True
  with assms show ?thesis
    by (auto simp: load_recipe_urls_included set_dedupe)
next
  case False
  show ?thesis
  proof (cases "\<forall>u\<in>set (http_urls (raw_urls w)). parse u \<noteq> None")
    case True
    from assms show ?thesis
      unfolding load_recipe_urls_accepted [OF False True] by (auto simp: set_dedupe)
  next
    case False
    then have "\<exists>u\<in>set (http_urls (raw_urls w)). parse u = None" by simp
    with assms \<open>\<not> include_sweets w\<close> show ?thesis
      by (simp add: load_recipe_urls_rejected)
  qed
qed

text \<open>
  C5. Every entry of a list the loader returns is the trimmed value of a line of the
  recipes file; it is itself trimmed, is not empty, does not start with \<^verbatim>\<open>#\<close> and starts
  with \<^verbatim>\<open>http\<close>. So no entry comes from a blank line, from a comment line or from a line
  that does not start with \<^verbatim>\<open>http\<close> after trimming.
\<close>

theorem load_recipe_urls_entries:
  assumes "load_recipe_urls parse w = Inr urls" "u \<in> set urls"
  shows "(\<exists>ls l. files w (recipes_file w) = Some ls \<and> l \<in> set ls \<and> u = strip l
            \<and> strip l \<noteq> [] \<and> \<not> startswith (strip l) ''#'' \<and> startswith (strip l) ''http'')
         \<and> strip u = u \<and> u \<noteq> [] \<and> \<not> startswith u ''#'' \<and> startswith u ''http''"
proof -
  from assms have mem: "u \<in> set (http_urls (raw_urls w))"
    using load_recipe_urls_subset by blast
  show ?thesis
  proof (cases "files w (recipes_file w)")
    case None
    with mem show ?thesis by (simp add: raw_urls_no_file)
  next
    case (Some ls)
    with mem have "u \<in> set (kept_lines ls)"
      by (simp add: raw_urls_file)
    then obtain l where l: "l \<in> set ls" "u = strip l"
      and u: "u \<noteq> []" "\<not> startswith u ''#''" "startswith u ''http''"
      unfolding kept_lines_props by blast
    from l have "strip u = u" by (simp add: strip_idem)
    with Some l u show ?thesis by blast
  qed
qed

theorem load_recipe_urls_entries_witness:
  "load_recipe_urls (urlparse loopback_only)
     (example_world Map.empty example_lines GetRaises PostRaises) = Inr [''http://a.example/chicken'']
   \<and> (\<exists>l. l \<in> set example_lines \<and> ''http://a.example/chicken'' = strip l)
   \<and> strip ''http://a.example/chicken'' = ''http://a.example/chicken''
   \<and> startswith ''http://a.example/chicken'' ''http''"
proof -
  let ?w = "example_world Map.empty example_lines GetRaises PostRaises"
  have res: "load_recipe_urls (urlparse loopback_only) ?w = Inr [''http://a.example/chicken'']"
    by code_simp
  have mem: "''http://a.example/chicken'' \<in> set [''http://a.example/chicken'']"
    by simp
  have fl: "files ?w (recipes_file ?w) = Some example_lines"
    by (simp add: example_world_def recipes_file_def)
  show ?thesis
    using res fl load_recipe_urls_entries [OF res mem] by auto
qed

text \<open>
  C3, as the code has it. When the recipes file exists, \<open>load_recipe_urls\<close> returns the
  trimmed, non-blank, non-comment lines that start with \<^verbatim>\<open>http\<close>, in file order, already
  filtered for dessert content (unless sweets are included) and already de-duplicated:
  each such line that passes the filter occurs in the output exactly once, at the place
  of its first occurrence. It returns so when sweets are included or the URL parser
  accepts every such line; when the filter is on and the parser rejects one of them,
  the loader raises the parser's \<^verbatim>\<open>ValueError\<close> instead.
\<close>

theorem load_recipe_urls_filtered_deduplicated:
  assumes "files w (recipes_file w) = Some ls"
  shows "(include_sweets w \<or> (\<forall>u\<in>set (kept_lines ls). parse u \<noteq> None) \<longrightarrow>
           load_recipe_urls parse w =
             Inr (dedupe (filter (\<lambda>u. include_sweets w \<or> is_probably_sweet_url parse u = Inr False)
                            (kept_lines ls)))
           \<and> subseq (dedupe (filter (\<lambda>u. include_sweets w \<or> is_probably_sweet_url parse u = Inr False)
                                (kept_lines ls))) (kept_lines ls)
           \<and> distinct (dedupe (filter (\<lambda>u. include_sweets w \<or> is_probably_sweet_url parse u = Inr False)
                                  (kept_lines ls)))
           \<and> set (dedupe (filter (\<lambda>u. include_sweets w \<or> is_probably_sweet_url parse u = Inr False)
                             (kept_lines ls))) =
               {u \<in> set (kept_lines ls).
                  include_sweets w \<or> is_probably_sweet_url parse u = Inr False})
         \<and> (\<not> include_sweets w \<and> (\<exists>u\<in>set (kept_lines ls). parse u = None) \<longrightarrow>
              load_recipe_urls parse w = Inl ValueError)"
proof -
  let ?keep = "filter (\<lambda>u. include_sweets w \<or> is_probably_sweet_url parse u = Inr False)
                 (kept_lines ls)"
  note kept = raw_urls_file [OF assms]
  have ret: "load_recipe_urls parse w = Inr (dedupe ?keep)"
    if "include_sweets w \<or> (\<forall>u\<in>set (kept_lines ls). parse u \<noteq> None)"
  proof (cases "include_sweets w")
    case True
    then show ?thesis by (simp add: load_recipe_urls_included kept)
  next
    case False
    with that have "\<forall>u\<in>set (http_urls (raw_urls w)). parse u \<noteq> None"
      by (simp add: kept)
    from load_recipe_urls_accepted [OF False this] False show ?thesis
      by (simp add: kept)
  qed
  have "subseq (dedupe ?keep) ?keep"
    unfolding dedupe_first_seen by (rule subseq_first_seen)
  then have sub: "subseq (dedupe ?keep) (kept_lines ls)"
    using subseq_filter_left [of _ "kept_lines ls"] by (rule subseq_order.trans)
  have st: "set (dedupe ?keep) =
      {u \<in> set (kept_lines ls). include_sweets w \<or> is_probably_sweet_url parse u = Inr False}"
    by (simp add: set_dedupe)
  have raises: "load_recipe_urls parse w = Inl ValueError"
    if "\<not> include_sweets w" "\<exists>u\<in>set (kept_lines ls). parse u = None"
    using load_recipe_urls_rejected [of w parse] that by (simp add: kept)
  show ?thesis
    using ret sub st raises distinct_dedupe [of ?keep] by blast
qed

theorem load_recipe_urls_filtered_deduplicated_witness:
  "load_recipe_urls (urlparse loopback_only)
     (example_world Map.empty example_lines GetRaises PostRaises) =
     Inr (dedupe (filter (\<lambda>u. include_sweets (example_world Map.empty example_lines GetRaises PostRaises)
                            \<or> is_probably_sweet_url (urlparse loopback_only) u = Inr False)
                    (kept_lines example_lines)))
   \<and> load_recipe_urls (urlparse loopback_only)
     (example_world Map.empty rejected_lines GetRaises PostRaises) = Inl ValueError
   \<and> load_recipe_urls (urlparse loopback_only)
     (example_world [''INCLUDE_SWEETS'' \<mapsto> ''1''] rejected_lines GetRaises PostRaises) =
     Inr [''http://a.example/chicken'', ''http://[::1/cake'']"
proof -
  let ?v = "example_world Map.empty example_lines GetRaises PostRaises"
  let ?r = "example_world Map.empty rejected_lines GetRaises PostRaises"
  let ?i = "example_world [''INCLUDE_SWEETS'' \<mapsto> ''1''] rejected_lines GetRaises PostRaises"
  have fv: "files ?v (recipes_file ?v) = Some example_lines"
    by (simp add: example_world_def recipes_file_def)
  have fr: "files ?r (recipes_file ?r) = Some rejected_lines"
    by (simp add: example_world_def recipes_file_def)
  have fi: "files ?i (recipes_file ?i) = Some rejected_lines"
    by (simp add: example_world_def recipes_file_def)
  have av: "\<forall>u\<in>set (kept_lines example_lines). urlparse loopback_only u \<noteq> None"
    by code_simp
  have rr: "\<not> include_sweets ?r \<and> (\<exists>u\<in>set (kept_lines rejected_lines). urlparse loopback_only u = None)"
    by code_simp
  have ii: "include_sweets ?i"
    by code_simp
  have a: "load_recipe_urls (urlparse loopback_only) ?v =
     Inr (dedupe (filter (\<lambda>u. include_sweets ?v \<or> is_probably_sweet_url (urlparse loopback_only) u = Inr False)
                    (kept_lines example_lines)))"
    using load_recipe_urls_filtered_deduplicated [OF fv, of "urlparse loopback_only"] av by blast
  have b: "load_recipe_urls (urlparse loopback_only) ?r = Inl ValueError"
    using load_recipe_urls_filtered_deduplicated [OF fr, of "urlparse loopback_only"] rr by blast
  have "load_recipe_urls (urlparse loopback_only) ?i =
     Inr (dedupe (filter (\<lambda>u. include_sweets ?i \<or> is_probably_sweet_url (urlparse loopback_only) u = Inr False)
                    (kept_lines rejected_lines)))"
    using load_recipe_urls_filtered_deduplicated [OF fi, of "urlparse loopback_only"] ii by blast
  moreover have "dedupe (filter (\<lambda>u. include_sweets ?i \<or> is_probably_sweet_url (urlparse loopback_only) u = Inr False)
                    (kept_lines rejected_lines)) = [''http://a.example/chicken'', ''http://[::1/cake'']"
    by code_simp
  ultimately have c: "load_recipe_urls (urlparse loopback_only) ?i =
      Inr [''http://a.example/chicken'', ''http://[::1/cake'']"
    by (simp only:)
  show ?thesis using a b c by (simp only: simp_thms)
qed

text \<open>
  The claim C3 as stated fails: of the three kept lines of the example file, the
  duplicate and the dessert URL are missing from the loader's output.
\<close>

theorem load_recipe_urls_raw_counterexample:
  "kept_lines example_lines =
     [''http://a.example/chicken'', ''http://a.example/chicken'', ''http://b.example/cake'']
   \<and> load_recipe_urls (urlparse loopback_only)
       (example_world Map.empty example_lines GetRaises PostRaises) =
     Inr [''http://a.example/chicken'']"
proof -
  have "kept_lines example_lines =
     [''http://a.example/chicken'', ''http://a.example/chicken'', ''http://b.example/cake'']"
    by code_simp
  moreover have
    "load_recipe_urls (urlparse loopback_only)
       (example_world Map.empty example_lines GetRaises PostRaises) =
     Inr [''http://a.example/chicken'']"
    by code_simp
  ultimately show ?thesis by simp
qed

text \<open>
  C4, as the code has it. The dessert filter is applied exactly when the trimmed value of
  \<^verbatim>\<open>INCLUDE_SWEETS\<close> is not \<^verbatim>\<open>1\<close> (the variable is unset, empty or holds anything else).
  When it is applied and the URL parser accepts every URL of the list, every URL for
  which \<open>is_probably_sweet_url\<close> is true is dropped; when it is applied and the parser
  rejects a URL of the list, the loader raises the parser's \<^verbatim>\<open>ValueError\<close>. When the
  trimmed value is \<^verbatim>\<open>1\<close> nothing is filtered, the parser is not called and sweet URLs are
  kept.
\<close>

theorem sweet_filter_flag:
  "((\<exists>v. environ w ''INCLUDE_SWEETS'' = Some v \<and> strip v = ''1'') \<longrightarrow>
      load_recipe_urls parse w = Inr (dedupe (http_urls (raw_urls w)))
      \<and> set (dedupe (http_urls (raw_urls w))) = set (http_urls (raw_urls w)))
   \<and> (\<not> (\<exists>v. environ w ''INCLUDE_SWEETS'' = Some v \<and> strip v = ''1'')
        \<and> (\<forall>u\<in>set (http_urls (raw_urls w)). parse u \<noteq> None) \<longrightarrow>
      load_recipe_urls parse w =
        Inr (dedupe (filter (\<lambda>u. is_probably_sweet_url parse u = Inr False)
                       (http_urls (raw_urls w))))
      \<and> set (dedupe (filter (\<lambda>u. is_probably_sweet_url parse u = Inr False)
                        (http_urls (raw_urls w)))) =
          {u \<in> set (http_urls (raw_urls w)). is_probably_sweet_url parse u \<noteq> Inr True})
   \<and> (\<not> (\<exists>v. environ w ''INCLUDE_SWEETS'' = Some v \<and> strip v = ''1'')
        \<and> (\<exists>u\<in>set (http_urls (raw_urls w)). parse u = None) \<longrightarrow>
      load_recipe_urls parse w = Inl ValueError)"
proof -
  let ?urls = "http_urls (raw_urls w)"
  have on: "load_recipe_urls parse w = Inr (dedupe ?urls)" if "include_sweets w"
    using that by (rule load_recipe_urls_included)
  have off: "load_recipe_urls parse w =
        Inr (dedupe (filter (\<lambda>u. is_probably_sweet_url parse u = Inr False) ?urls))
      \<and> set (dedupe (filter (\<lambda>u. is_probably_sweet_url parse u = Inr False) ?urls)) =
          {u \<in> set ?urls. is_probably_sweet_url parse u \<noteq> Inr True}"
    if no: "\<not> include_sweets w" and acc: "\<forall>u\<in>set ?urls. parse u \<noteq> None"
  proof -
    have "is_probably_sweet_url parse u = Inr False \<longleftrightarrow> is_probably_sweet_url parse u \<noteq> Inr True"
      if "u \<in> set ?urls" for u
    proof -
      from that acc obtain p where "parse u = Some p" by auto
      then show ?thesis
        by (simp add: is_probably_sweet_url_Some [of parse u p])
    qed
    then have "{u \<in> set ?urls. is_probably_sweet_url parse u = Inr False} =
        {u \<in> set ?urls. is_probably_sweet_url parse u \<noteq> Inr True}"
      by blast
    then show ?thesis
      using load_recipe_urls_accepted [OF no acc] by (simp add: set_dedupe)
  qed
  have err: "load_recipe_urls parse w = Inl ValueError"
    if "\<not> include_sweets w" "\<exists>u\<in>set ?urls. parse u = None"
    using that by (rule load_recipe_urls_rejected)
  show ?thesis
    unfolding include_sweets_env [symmetric]
    using on off err set_dedupe [of ?urls] by blast
qed

theorem sweet_filter_flag_witness:
  "load_recipe_urls (urlparse loopback_only)
     (example_world [''INCLUDE_SWEETS'' \<mapsto> '' 1 ''] example_lines GetRaises PostRaises) =
     Inr [''http://a.example/chicken'', ''http://b.example/cake'']
   \<and> is_probably_sweet_url (urlparse loopback_only) ''http://b.example/cake'' = Inr True
   \<and> load_recipe_urls (urlparse loopback_only)
     (example_world Map.empty example_lines GetRaises PostRaises) =
     Inr [''http://a.example/chicken'']
   \<and> load_recipe_urls (urlparse loopback_only)
     (example_world Map.empty rejected_lines GetRaises PostRaises) = Inl ValueError"
proof -
  let ?i = "example_world [''INCLUDE_SWEETS'' \<mapsto> '' 1 ''] example_lines GetRaises PostRaises"
  let ?v = "example_world Map.empty example_lines GetRaises PostRaises"
  let ?r = "example_world Map.empty rejected_lines GetRaises PostRaises"
  let ?P = "urlparse loopback_only"
  have fi: "\<exists>v. environ ?i ''INCLUDE_SWEETS'' = Some v \<and> strip v = ''1''"
    by (simp add: example_world_def strip_def lstrip_def rstrip_def is_space_def)
  have fv: "\<not> (\<exists>v. environ ?v ''INCLUDE_SWEETS'' = Some v \<and> strip v = ''1'')
      \<and> (\<forall>u\<in>set (http_urls (raw_urls ?v)). ?P u \<noteq> None)"
  proof -
    have "\<forall>u\<in>set (http_urls (raw_urls ?v)). ?P u \<noteq> None" by code_simp
    then show ?thesis by (simp add: example_world_def)
  qed
  have fr: "\<not> (\<exists>v. environ ?r ''INCLUDE_SWEETS'' = Some v \<and> strip v = ''1'')
      \<and> (\<exists>u\<in>set (http_urls (raw_urls ?r)). ?P u = None)"
  proof -
    have "\<exists>u\<in>set (http_urls (raw_urls ?r)). ?P u = None" by code_simp
    then show ?thesis by (simp add: example_world_def)
  qed
  have ei: "dedupe (http_urls (raw_urls ?i)) = [''http://a.example/chicken'', ''http://b.example/cake'']"
    by code_simp
  have ev: "dedupe (filter (\<lambda>u. is_probably_sweet_url ?P u = Inr False) (http_urls (raw_urls ?v))) =
      [''http://a.example/chicken'']"
    by code_simp
  have sweet: "is_probably_sweet_url ?P ''http://b.example/cake'' = Inr True"
    by code_simp
  have a: "load_recipe_urls ?P ?i = Inr (dedupe (http_urls (raw_urls ?i)))"
    using sweet_filter_flag [of ?i ?P] fi by blast
  have b: "load_recipe_urls ?P ?v =
      Inr (dedupe (filter (\<lambda>u. is_probably_sweet_url ?P u = Inr False) (http_urls (raw_urls ?v))))"
    using sweet_filter_flag [of ?v ?P] fv by blast
  have c: "load_recipe_urls ?P ?r = Inl ValueError"
    using sweet_filter_flag [of ?r ?P] fr by blast
  show ?thesis
    using a b c sweet unfolding ei ev by (simp only: simp_thms)
qed

text \<open>
  The claim C4 as stated fails: with \<^verbatim>\<open>INCLUDE_SWEETS=true\<close> the flag is present, and the
  dessert URL of the example file is dropped all the same.
\<close>

theorem sweet_filter_flag_counterexample:
  "environ (example_world [''INCLUDE_SWEETS'' \<mapsto> ''true''] example_lines GetRaises PostRaises)
     ''INCLUDE_SWEETS'' = Some ''true''
   \<and> is_probably_sweet_url (urlparse loopback_only) ''http://b.example/cake'' = Inr True
   \<and> ''http://b.example/cake'' \<in> set (http_urls (raw_urls
        (example_world [''INCLUDE_SWEETS'' \<mapsto> ''true''] example_lines GetRaises PostRaises)))
   \<and> load_recipe_urls (urlparse loopback_only)
        (example_world [''INCLUDE_SWEETS'' \<mapsto> ''true''] example_lines GetRaises PostRaises) =
      Inr [''http://a.example/chicken'']"
proof -
  let ?w = "example_world [''INCLUDE_SWEETS'' \<mapsto> ''true''] example_lines GetRaises PostRaises"
  have "environ ?w ''INCLUDE_SWEETS'' = Some ''true''"
    by (simp add: example_world_def)
  moreover have "is_probably_sweet_url (urlparse loopback_only) ''http://b.example/cake'' = Inr True"
    by code_simp
  moreover have "''http://b.example/cake'' \<in> set (http_urls (raw_urls ?w))"
    by code_simp
  moreover have "load_recipe_urls (urlparse loopback_only) ?w = Inr [''http://a.example/chicken'']"
    by code_simp
  ultimately show ?thesis by simp
qed

subsection \<open>Fetching a title\<close>

lemma strip_Nil [simp]: "strip [] = []"
  by (simp add: strip_def lstrip_def rstrip_def)

lemma strip_blank: "strip v = [] \<longleftrightarrow> (\<forall>c\<in>set v. is_space c)"
proof
  assume "strip v = []"
  then have all: "\<forall>c\<in>set (dropWhile is_space v). is_space c"
    by (simp add: strip_def lstrip_def rstrip_def)
  have "dropWhile is_space v = []"
  proof (rule ccontr)
    assume ne: "dropWhile is_space v \<noteq> []"
    then have "\<not> is_space (hd (dropWhile is_space v))" by (rule hd_dropWhile)
    moreover have "hd (dropWhile is_space v) \<in> set (dropWhile is_space v)"
      using ne by (rule hd_in_set)
    ultimately show False using all by blast
  qed
  then show "\<forall>c\<in>set v. is_space c" by simp
next
  assume "\<forall>c\<in>set v. is_space c"
  then have "dropWhile is_space v = []" by simp
  then show "strip v = []"
    unfolding strip_def lstrip_def rstrip_def by (simp only: rev.simps dropWhile.simps)
qed

lemma raise_for_status_ok:
  "\<not> (400 \<le> status \<and> status < 600) \<Longrightarrow> raise_for_status status = Inr ()"
  by (auto simp: raise_for_status_def)

lemma raise_for_status_error:
  "400 \<le> status \<Longrightarrow> status < 600 \<Longrightarrow> raise_for_status status = Inl (HTTPError status)"
  by (simp add: raise_for_status_def)

lemma fetch_title_events: "snd (fetch_title w u t) = [HttpGet u t]"
  by (simp add: fetch_title_def)

text \<open>
  C6, as the code has it. \<open>fetch_title\<close> always returns a string, after one GET request:
  every exception raised in its \<^verbatim>\<open>try\<close> block gives the empty string. The result is empty
  when the GET raises, when the response has an error status (4xx or 5xx, the statuses
  on which \<^verbatim>\<open>raise_for_status\<close> raises), when the HTML does not parse, and when the page
  has neither a non-empty Open Graph title nor a non-empty document title. Otherwise it
  is the trimmed Open Graph title when that is non-empty, else the trimmed document
  title.
\<close>

theorem fetch_title_result:
  "snd (fetch_title w u t) = [HttpGet u t]
   \<and> fst (fetch_title w u t) =
       (case fetch_title_try w u t of Inr (Some x) \<Rightarrow> x | _ \<Rightarrow> [])
   \<and> (http_get w u t = GetRaises \<longrightarrow> fst (fetch_title w u t) = [])
   \<and> (http_get w u t = GetResponse status text \<and> 400 \<le> status \<and> status < 600
        \<longrightarrow> fst (fetch_title w u t) = [])
   \<and> (http_get w u t = GetResponse status text \<and> html_parser w text = None
        \<longrightarrow> fst (fetch_title w u t) = [])
   \<and> (http_get w u t = GetResponse status text \<and> \<not> (400 \<le> status \<and> status < 600)
        \<and> html_parser w text = Some sp
        \<longrightarrow> fst (fetch_title w u t) =
             (case og_meta sp of
                Some (Some c) \<Rightarrow> if c \<noteq> [] then strip c
                                else (case title_of_soup sp of None \<Rightarrow> [] | Some s \<Rightarrow> s)
              | _ \<Rightarrow> (case title_of_soup sp of None \<Rightarrow> [] | Some s \<Rightarrow> s)))
   \<and> title_of_soup sp =
       (case title_tag sp of Some (Some s) \<Rightarrow> if s \<noteq> [] then Some (strip s) else None
        | _ \<Rightarrow> None)"
proof -
  have ev: "snd (fetch_title w u t) = [HttpGet u t]"
    by (simp add: fetch_title_def)
  have res: "fst (fetch_title w u t) =
       (case fetch_title_try w u t of Inr (Some x) \<Rightarrow> x | _ \<Rightarrow> [])"
    by (simp add: fetch_title_def split: sum.splits option.splits)
  have raises: "fst (fetch_title w u t) = []" if "http_get w u t = GetRaises"
    using that by (simp add: res fetch_title_try_def)
  have status: "fst (fetch_title w u t) = []"
    if "http_get w u t = GetResponse status text" "400 \<le> status" "status < 600"
    using that(1) raise_for_status_error [OF that(2,3)]
    by (simp add: res fetch_title_try_def)
  have parse: "fst (fetch_title w u t) = []"
    if "http_get w u t = GetResponse status text" "html_parser w text = None"
    using that by (cases "raise_for_status status") (simp_all add: res fetch_title_try_def)
  have found: "fst (fetch_title w u t) =
             (case og_meta sp of
                Some (Some c) \<Rightarrow> if c \<noteq> [] then strip c
                                else (case title_of_soup sp of None \<Rightarrow> [] | Some s \<Rightarrow> s)
              | _ \<Rightarrow> (case title_of_soup sp of None \<Rightarrow> [] | Some s \<Rightarrow> s))"
    if "http_get w u t = GetResponse status text" "\<not> (400 \<le> status \<and> status < 600)"
      "html_parser w text = Some sp"
    using that(1,3) raise_for_status_ok [OF that(2)]
    by (simp add: res fetch_title_try_def split: option.splits)
  have tt: "title_of_soup sp =
       (case title_tag sp of Some (Some s) \<Rightarrow> if s \<noteq> [] then Some (strip s) else None
        | _ \<Rightarrow> None)"
    by (simp add: title_of_soup_def)
  show ?thesis
    using ev res raises status parse found tt by blast
qed

theorem fetch_title_result_witness:
  "fst (fetch_title (example_world Map.empty [] GetRaises PostRaises) ''http://a.example/chicken'' 12) = []
   \<and> fst (fetch_title (example_world Map.empty [] (GetResponse 404 ''Not here'') PostRaises)
          ''http://a.example/chicken'' 12) = []
   \<and> fst (fetch_title (example_world Map.empty [] (GetResponse 200 []) PostRaises)
          ''http://a.example/chicken'' 12) = []
   \<and> fst (fetch_title (example_world Map.empty [] (GetResponse 200 '' Roast Chicken '') PostRaises)
          ''http://a.example/chicken'' 12) = ''Roast Chicken''"
proof -
  let ?u = "''http://a.example/chicken''"
  let ?w1 = "example_world Map.empty [] GetRaises PostRaises"
  let ?w2 = "example_world Map.empty [] (GetResponse 404 ''Not here'') PostRaises"
  let ?w3 = "example_world Map.empty [] (GetResponse 200 []) PostRaises"
  let ?w4 = "example_world Map.empty [] (GetResponse 200 '' Roast Chicken '') PostRaises"
  have "http_get ?w1 ?u 12 = GetRaises"
    by (simp add: example_world_def)
  then have a: "fst (fetch_title ?w1 ?u 12) = []"
    using fetch_title_result [of ?w1 ?u 12] by blast
  have "http_get ?w2 ?u 12 = GetResponse 404 ''Not here'' \<and> (400::int) \<le> 404 \<and> (404::int) < 600"
    by (simp add: example_world_def)
  then have b: "fst (fetch_title ?w2 ?u 12) = []"
    using fetch_title_result [of ?w2 ?u 12 404 "''Not here''"] by blast
  have "http_get ?w3 ?u 12 = GetResponse 200 [] \<and> html_parser ?w3 [] = None"
    by (simp add: example_world_def)
  then have c: "fst (fetch_title ?w3 ?u 12) = []"
    using fetch_title_result [of ?w3 ?u 12 200 "[]"] by blast
  let ?sp = "\<lparr>og_meta = Some (Some '' Roast Chicken ''), title_tag = Some (Some ''Home'')\<rparr>"
  have "http_get ?w4 ?u 12 = GetResponse 200 '' Roast Chicken ''
        \<and> \<not> ((400::int) \<le> 200 \<and> (200::int) < 600)
        \<and> html_parser ?w4 '' Roast Chicken '' = Some ?sp"
    by (simp add: example_world_def)
  then have "fst (fetch_title ?w4 ?u 12) =
      (case og_meta ?sp of
         Some (Some c) \<Rightarrow> if c \<noteq> [] then strip c
                         else (case title_of_soup ?sp of None \<Rightarrow> [] | Some s \<Rightarrow> s)
       | _ \<Rightarrow> (case title_of_soup ?sp of None \<Rightarrow> [] | Some s \<Rightarrow> s))"
    using fetch_title_result [of ?w4 ?u 12 200 "'' Roast Chicken ''" ?sp] by blast
  then have d: "fst (fetch_title ?w4 ?u 12) = ''Roast Chicken''"
    by (simp add: strip_def lstrip_def rstrip_def is_space_def)
  show ?thesis using a b c d by simp
qed

text \<open>
  The claim C6 as stated fails for a status that is neither a success nor an error for
  \<^verbatim>\<open>raise_for_status\<close>: a response with status 300 is parsed and its title returned.
\<close>

theorem fetch_title_status_counterexample:
  "http_get (example_world Map.empty [] (GetResponse 300 '' Pick one '') PostRaises)
     ''http://a.example/chicken'' 12 = GetResponse 300 '' Pick one ''
   \<and> fetch_title (example_world Map.empty [] (GetResponse 300 '' Pick one '') PostRaises)
       ''http://a.example/chicken'' 12 = (''Pick one'', [HttpGet ''http://a.example/chicken'' 12])"
  by (simp add: example_world_def fetch_title_def fetch_title_try_def raise_for_status_def
      strip_def lstrip_def rstrip_def is_space_def)

subsection \<open>The call to the LLM\<close>

text \<open>
  C7. When the API key is absent, unset or blank, \<open>call_openai_suggestions\<close> fails with
  the configuration error and has performed no effect at all: no request is made.
\<close>

theorem call_openai_suggestions_no_key:
  assumes "environ w ''OPENAI_API_KEY'' = None
           \<or> (\<exists>v. environ w ''OPENAI_API_KEY'' = Some v \<and> list_all is_space v)"
  shows "call_openai_suggestions w link_metas meals_per_week =
           (Inl (RuntimeError ''OPENAI_API_KEY environment variable must be set.''), [])"
proof -
  from assms have "strip (getenv w ''OPENAI_API_KEY'' []) = []"
    by (auto simp: getenv_def strip_blank list_all_iff)
  then show ?thesis
    by (simp add: call_openai_suggestions_def)
qed

theorem call_openai_suggestions_no_key_witness:
  "call_openai_suggestions
     (example_world Map.empty example_lines GetRaises (PostResponse 200 [] (Some text_response)))
     [\<lparr>url = ''http://a.example/chicken'', title = []\<rparr>] 7 =
     (Inl (RuntimeError ''OPENAI_API_KEY environment variable must be set.''), [])
   \<and> call_openai_suggestions
     (example_world [''OPENAI_API_KEY'' \<mapsto> ''  ''] example_lines GetRaises
        (PostResponse 200 [] (Some text_response)))
     [\<lparr>url = ''http://a.example/chicken'', title = []\<rparr>] 7 =
     (Inl (RuntimeError ''OPENAI_API_KEY environment variable must be set.''), [])"
proof -
  let ?w1 = "example_world Map.empty example_lines GetRaises (PostResponse 200 [] (Some text_response))"
  let ?w2 = "example_world [''OPENAI_API_KEY'' \<mapsto> ''  ''] example_lines GetRaises
        (PostResponse 200 [] (Some text_response))"
  have a: "environ ?w1 ''OPENAI_API_KEY'' = None
           \<or> (\<exists>v. environ ?w1 ''OPENAI_API_KEY'' = Some v \<and> list_all is_space v)"
    by (simp add: example_world_def)
  have b: "environ ?w2 ''OPENAI_API_KEY'' = None
           \<or> (\<exists>v. environ ?w2 ''OPENAI_API_KEY'' = Some v \<and> list_all is_space v)"
    by (simp add: example_world_def is_space_def)
  show ?thesis
    using call_openai_suggestions_no_key [OF a] call_openai_suggestions_no_key [OF b] by simp
qed

lemma is_space_newline: "is_space (CHR 0x0A)"
  by (simp add: is_space_def)

lemma join_blank:
  "list_all (\<lambda>x. list_all is_space x) xs \<Longrightarrow> list_all is_space (join ''\<newline>'' xs)"
  by (induction "''\<newline>''" xs rule: join.induct) (simp_all add: is_space_newline)

lemma extract_text_no_text:
  assumes "no_text d"
  shows "extract_text d = Inl (RuntimeError ''OpenAI API returned no text output.'')"
proof -
  from assms have "strip (join ''\<newline>'' (text_chunks d)) = []"
    by (simp add: no_text_def strip_blank join_blank list_all_iff [symmetric])
  moreover from assms have "strip (case output_text d of None \<Rightarrow> [] | Some t \<Rightarrow> t) = []"
    by (cases "output_text d") (simp_all add: no_text_def strip_blank list_all_iff)
  ultimately show ?thesis
    by (simp add: extract_text_def)
qed

lemma extract_text_Inr: "extract_text d = Inr t \<Longrightarrow> t \<noteq> [] \<and> strip t = t"
  by (auto simp: extract_text_def Let_def strip_idem split: if_splits)

lemma call_openai_suggestions_Inr:
  "fst (call_openai_suggestions w ms n) = Inr body \<Longrightarrow> body \<noteq> [] \<and> strip body = body"
  by (auto simp: call_openai_suggestions_def Let_def split: if_splits post_outcome.splits option.splits
      dest: extract_text_Inr)

lemma call_openai_suggestions_events:
  "\<forall>e\<in>set (snd (call_openai_suggestions w ms n)). \<not> is_smtp_event e"
  by (simp add: call_openai_suggestions_def Let_def)

lemma fetch_metas_events: "\<forall>e\<in>set (snd (fetch_metas w us)). \<not> is_smtp_event e"
  by (induction us) (auto simp: fetch_title_def split: prod.splits)

lemma build_link_metas_events:
  "\<forall>e\<in>set (snd (build_link_metas w us k)). \<not> is_smtp_event e"
  using fetch_metas_events [of w "slice_to k us"]
  by (simp add: build_link_metas_def split: prod.splits)

lemma send_email_events:
  "SmtpSend m \<in> set (snd (send_email w body)) \<Longrightarrow> msg_content m = body"
  by (auto simp: send_email_def Let_def split: if_splits option.splits)

text \<open>What \<open>main\<close> does after a non-empty URL list and a well-formed meal count.\<close>

lemma main_pipeline:
  assumes "load_recipe_urls parse w = Inr urls" "urls \<noteq> []"
    and "py_int (strip (getenv w ''MEALS_PER_WEEK'' ''7'')) = Some n"
  shows "main parse w =
     (case fst (call_openai_suggestions w (fst (build_link_metas w urls 60)) n) of
        Inl e \<Rightarrow> (Inl e, snd (build_link_metas w urls 60)
                    @ snd (call_openai_suggestions w (fst (build_link_metas w urls 60)) n))
      | Inr body \<Rightarrow>
          (case fst (send_email w body) of Inl e \<Rightarrow> Inl e | Inr _ \<Rightarrow> Inr 0,
           snd (build_link_metas w urls 60)
             @ snd (call_openai_suggestions w (fst (build_link_metas w urls 60)) n)
             @ snd (send_email w body)))"
  using assms
  by (simp add: main_def Let_def split: prod.splits sum.splits)

lemma main_raises: "load_recipe_urls parse w = Inl e \<Longrightarrow> main parse w = (Inl e, [])"
  by (simp add: main_def)

lemma main_no_urls:
  "load_recipe_urls parse w = Inr [] \<Longrightarrow> main parse w = (Inr 2, [Print no_urls_message])"
  by (simp add: main_def)

lemma main_no_count:
  assumes "load_recipe_urls parse w = Inr urls" "urls \<noteq> []"
    and "py_int (strip (getenv w ''MEALS_PER_WEEK'' ''7'')) = None"
  shows "main parse w = (Inl ValueError, [])"
  using assms by (simp add: main_def)

lemma call_openai_suggestions_request:
  assumes "snd (call_openai_suggestions w ms n) = [HttpPost a k req t]"
  shows "fst (call_openai_suggestions w ms n) =
     (case http_post w a k req t of
        PostRaises \<Rightarrow> Inl RequestException
      | PostResponse status text data \<Rightarrow>
          if status \<ge> 400
          then Inl (RuntimeError (''OpenAI API error '' @ py_str status @ '': '' @ text))
          else (case data of None \<Rightarrow> Inl InvalidJSON | Some d \<Rightarrow> extract_text d))"
  using assms
  by (cases "strip (getenv w ''OPENAI_API_KEY'' []) = []")
    (auto simp: call_openai_suggestions_def Let_def)

lemma main_mail_body:
  assumes "SmtpSend m \<in> set (snd (main parse w))"
  shows "msg_content m \<noteq> [] \<and> \<not> list_all is_space (msg_content m)"
proof (cases "load_recipe_urls parse w")
  case (Inl e)
  with assms show ?thesis by (simp add: main_raises)
next
  case (Inr urls)
  with assms have ne: "urls \<noteq> []"
    by (cases "urls = []") (simp_all add: main_no_urls)
  with assms Inr obtain n where n: "py_int (strip (getenv w ''MEALS_PER_WEEK'' ''7'')) = Some n"
    by (cases "py_int (strip (getenv w ''MEALS_PER_WEEK'' ''7''))") (simp_all add: main_no_count)
  let ?ms = "fst (build_link_metas w urls 60)"
  note pipe = main_pipeline [OF Inr ne n]
  show ?thesis
  proof (cases "fst (call_openai_suggestions w ?ms n)")
    case (Inl e)
    with assms pipe have "SmtpSend m \<in> set (snd (build_link_metas w urls 60))
        \<or> SmtpSend m \<in> set (snd (call_openai_suggestions w ?ms n))"
      by auto
    then have False
      using build_link_metas_events [of w urls 60] call_openai_suggestions_events [of w ?ms n]
      by fastforce
    then show ?thesis ..
  next
    case body: (Inr body)
    with assms pipe have "SmtpSend m \<in> set (snd (build_link_metas w urls 60))
        \<or> SmtpSend m \<in> set (snd (call_openai_suggestions w ?ms n))
        \<or> SmtpSend m \<in> set (snd (send_email w body))"
      by auto
    then have "SmtpSend m \<in> set (snd (send_email w body))"
      using build_link_metas_events [of w urls 60] call_openai_suggestions_events [of w ?ms n]
      by fastforce
    then have "msg_content m = body" by (rule send_email_events)
    moreover from body have "body \<noteq> [] \<and> strip body = body"
      by (rule call_openai_suggestions_Inr)
    ultimately show ?thesis
      using strip_blank [of body] by (auto simp: list_all_iff)
  qed
qed

text \<open>
  C8. A response from which no non-empty text can be extracted makes the extraction, and
  with it \<open>call_openai_suggestions\<close>, fail with the "no text output" error. Whenever the
  call fails, \<open>main\<close> ends with that error and no SMTP effect has happened; and every
  message \<open>main\<close> ever sends has a body that is not blank.
\<close>

theorem empty_output_no_mail:
  "(no_text d \<longrightarrow> extract_text d = Inl (RuntimeError ''OpenAI API returned no text output.''))
   \<and> (no_text d \<and> snd (call_openai_suggestions w ms n) = [HttpPost a k req t]
        \<and> http_post w a k req t = PostResponse status text (Some d) \<and> status < 400
      \<longrightarrow> fst (call_openai_suggestions w ms n) =
            Inl (RuntimeError ''OpenAI API returned no text output.''))
   \<and> (load_recipe_urls parse w = Inr urls \<and> urls \<noteq> []
        \<and> py_int (strip (getenv w ''MEALS_PER_WEEK'' ''7'')) = Some n
        \<and> fst (call_openai_suggestions w (fst (build_link_metas w urls 60)) n) = Inl e
      \<longrightarrow> fst (main parse w) = Inl e
          \<and> list_all (\<lambda>ev. \<not> is_smtp_event ev) (snd (main parse w)))
   \<and> (\<forall>m. SmtpSend m \<in> set (snd (main parse w))
          \<longrightarrow> msg_content m \<noteq> [] \<and> \<not> list_all is_space (msg_content m))"
proof -
  have call: "fst (call_openai_suggestions w ms n) =
            Inl (RuntimeError ''OpenAI API returned no text output.'')"
    if "no_text d" "snd (call_openai_suggestions w ms n) = [HttpPost a k req t]"
      "http_post w a k req t = PostResponse status text (Some d)" "status < 400"
    using call_openai_suggestions_request [OF that(2)] that(3,4) extract_text_no_text [OF that(1)]
    by simp
  have run: "fst (main parse w) = Inl e
          \<and> list_all (\<lambda>ev. \<not> is_smtp_event ev) (snd (main parse w))"
    if "load_recipe_urls parse w = Inr urls" "urls \<noteq> []"
      "py_int (strip (getenv w ''MEALS_PER_WEEK'' ''7'')) = Some n"
      "fst (call_openai_suggestions w (fst (build_link_metas w urls 60)) n) = Inl e"
    using main_pipeline [OF that(1,2,3)] that(4)
      build_link_metas_events [of w urls 60]
      call_openai_suggestions_events [of w "fst (build_link_metas w urls 60)" n]
    by (auto simp: list_all_iff)
  show ?thesis
    using extract_text_no_text [of d] call run main_mail_body [of _ parse w] by blast
qed

theorem empty_output_no_mail_witness:
  "no_text blank_response
   \<and> fst (main (urlparse loopback_only) (example_world example_env example_lines
            (GetResponse 200 '' Roast Chicken '') (PostResponse 200 [] (Some blank_response)))) =
       Inl (RuntimeError ''OpenAI API returned no text output.'')
   \<and> list_all (\<lambda>ev. \<not> is_smtp_event ev)
       (snd (main (urlparse loopback_only) (example_world example_env example_lines
            (GetResponse 200 '' Roast Chicken '') (PostResponse 200 [] (Some blank_response)))))"
proof -
  let ?w = "example_world example_env example_lines
            (GetResponse 200 '' Roast Chicken '') (PostResponse 200 [] (Some blank_response))"
  let ?urls = "[''http://a.example/chicken'']"
  let ?ms = "fst (build_link_metas ?w ?urls 60)"
  have blank: "no_text blank_response"
    by code_simp
  have urls: "load_recipe_urls (urlparse loopback_only) ?w = Inr ?urls \<and> ?urls \<noteq> []"
    by code_simp
  have meals: "py_int (strip (getenv ?w ''MEALS_PER_WEEK'' ''7'')) = Some 7"
    by code_simp
  have key: "strip (getenv ?w ''OPENAI_API_KEY'' []) = ''sk-test''"
    by code_simp
  obtain a k req t where req: "snd (call_openai_suggestions ?w ?ms 7) = [HttpPost a k req t]"
    by (simp add: call_openai_suggestions_def Let_def key)
  have post: "http_post ?w a k req t = PostResponse 200 [] (Some blank_response)"
    by (simp add: example_world_def)
  have "fst (call_openai_suggestions ?w ?ms 7) =
          Inl (RuntimeError ''OpenAI API returned no text output.'')"
    using empty_output_no_mail [of blank_response ?w ?ms 7 a k req t 200 "[]"] blank req post
    by simp
  with urls meals show ?thesis
    using empty_output_no_mail [of blank_response ?w _ 7 _ _ _ _ _ _ "urlparse loopback_only"
        ?urls "RuntimeError ''OpenAI API returned no text output.''"] blank
    by blast
qed

subsection \<open>The run\<close>

text \<open>
  C9. When the filtered, de-duplicated URL list is empty, \<open>main\<close> returns 2 and its only
  effect is printing the guidance message: no title is fetched, the LLM is not called and
  no SMTP session is opened. When the list is not empty, the meal count is an integer,
  the LLM call returns a text and the mail is sent, \<open>main\<close> returns 0; and 0 and 2 are
  the only codes it returns. When the loader raises, \<open>main\<close> returns no code: the
  exception leaves it before any effect.
\<close>

theorem main_exit_codes:
  "(load_recipe_urls parse w = Inr [] \<longrightarrow> main parse w = (Inr 2, [Print no_urls_message]))
   \<and> (load_recipe_urls parse w = Inr urls \<and> urls \<noteq> []
        \<and> py_int (strip (getenv w ''MEALS_PER_WEEK'' ''7'')) = Some n
        \<and> fst (call_openai_suggestions w (fst (build_link_metas w urls 60)) n) = Inr body
        \<and> fst (send_email w body) = Inr ()
      \<longrightarrow> fst (main parse w) = Inr 0)
   \<and> (fst (main parse w) = Inr code \<longrightarrow>
        (code = 2 \<and> load_recipe_urls parse w = Inr [])
        \<or> (code = 0 \<and> (\<exists>us. load_recipe_urls parse w = Inr us \<and> us \<noteq> [])))
   \<and> (load_recipe_urls parse w = Inl e \<longrightarrow> main parse w = (Inl e, []))"
proof -
  have ok: "fst (main parse w) = Inr 0"
    if "load_recipe_urls parse w = Inr urls" "urls \<noteq> []"
      "py_int (strip (getenv w ''MEALS_PER_WEEK'' ''7'')) = Some n"
      "fst (call_openai_suggestions w (fst (build_link_metas w urls 60)) n) = Inr body"
      "fst (send_email w body) = Inr ()"
    using main_pipeline [OF that(1,2,3)] that(4,5) by simp
  have codes: "(code = 2 \<and> load_recipe_urls parse w = Inr [])
      \<or> (code = 0 \<and> (\<exists>us. load_recipe_urls parse w = Inr us \<and> us \<noteq> []))"
    if "fst (main parse w) = Inr code"
  proof (cases "load_recipe_urls parse w")
    case (Inl e')
    with that show ?thesis by (simp add: main_raises)
  next
    case (Inr us)
    show ?thesis
    proof (cases "us = []")
      case True
      with that Inr show ?thesis by (simp add: main_no_urls)
    next
      case False
      show ?thesis
      proof (cases "py_int (strip (getenv w ''MEALS_PER_WEEK'' ''7''))")
        case None
        with False Inr that show ?thesis by (simp add: main_no_count)
      next
        case (Some n')
        from that have "code = 0"
          unfolding main_pipeline [OF Inr False Some]
          by (auto split: sum.splits)
        with Inr False show ?thesis by simp
      qed
    qed
  qed
  show ?thesis
    using main_no_urls [of parse w] ok codes main_raises [of parse w e] by blast
qed

theorem main_exit_codes_witness:
  "main (urlparse loopback_only) (example_world example_env [''http://b.example/cake\<newline>'']
       (GetResponse 200 '' Roast Chicken '') (PostResponse 200 [] (Some text_response))) =
     (Inr 2, [Print no_urls_message])
   \<and> fst (main (urlparse loopback_only) (example_world example_env example_lines
       (GetResponse 200 '' Roast Chicken '') (PostResponse 200 [] (Some text_response)))) = Inr 0
   \<and> main (urlparse loopback_only) (example_world example_env rejected_lines
       (GetResponse 200 '' Roast Chicken '') (PostResponse 200 [] (Some text_response))) =
     (Inl ValueError, [])"
proof -
  let ?P = "urlparse loopback_only"
  let ?v = "example_world example_env [''http://b.example/cake\<newline>'']
       (GetResponse 200 '' Roast Chicken '') (PostResponse 200 [] (Some text_response))"
  let ?w = "example_world example_env example_lines
       (GetResponse 200 '' Roast Chicken '') (PostResponse 200 [] (Some text_response))"
  let ?r = "example_world example_env rejected_lines
       (GetResponse 200 '' Roast Chicken '') (PostResponse 200 [] (Some text_response))"
  let ?urls = "[''http://a.example/chicken'']"
  let ?ms = "fst (build_link_metas ?w ?urls 60)"
  have none: "load_recipe_urls ?P ?v = Inr []"
    by code_simp
  have a: "main ?P ?v = (Inr 2, [Print no_urls_message])"
    using main_exit_codes [of ?P ?v] none by blast
  have urls: "load_recipe_urls ?P ?w = Inr ?urls \<and> ?urls \<noteq> []"
    by code_simp
  have meals: "py_int (strip (getenv ?w ''MEALS_PER_WEEK'' ''7'')) = Some 7"
    by code_simp
  have key: "strip (getenv ?w ''OPENAI_API_KEY'' []) = ''sk-test''"
    by code_simp
  have ext: "extract_text text_response = Inr ''Hello''"
    by code_simp
  have call: "fst (call_openai_suggestions ?w ?ms 7) = Inr ''Hello''"
    by (simp add: call_openai_suggestions_def Let_def key ext)
      (simp add: example_world_def ext)
  have mail: "fst (send_email ?w ''Hello'') = Inr ()"
    by code_simp
  have b: "fst (main ?P ?w) = Inr 0"
    using main_exit_codes [of ?P ?w ?urls 7 "''Hello''"] urls meals call mail by blast
  have raised: "load_recipe_urls ?P ?r = Inl ValueError"
    by code_simp
  have c: "main ?P ?r = (Inl ValueError, [])"
    using main_exit_codes [of ?P ?r _ _ _ _ ValueError] raised by blast
  show ?thesis using a b c by (simp only: simp_thms)
qed

subsection \<open>The prompt\<close>

lemma strip_core:
  assumes "\<forall>c\<in>set w1. is_space c" "\<not> is_space a" "\<not> is_space b" "\<forall>c\<in>set w2. is_space c"
  shows "strip (w1 @ a # xs @ b # w2) = a # xs @ [b]"
proof -
  have "lstrip (w1 @ a # xs @ b # w2) = a # xs @ b # w2"
    using assms(1,2) by (simp add: lstrip_def dropWhile_append3)
  moreover have "rstrip (a # xs @ b # w2) = a # xs @ [b]"
  proof -
    have "rev (a # xs @ b # w2) = rev w2 @ b # rev xs @ [a]" by simp
    moreover have "dropWhile is_space (rev w2 @ b # rev xs @ [a]) = b # rev xs @ [a]"
      using assms(3,4) by (simp add: dropWhile_append3)
    ultimately show ?thesis by (simp add: rstrip_def)
  qed
  ultimately show ?thesis by (simp add: strip_def)
qed

lemma sublist_strip:
  assumes "\<exists>c\<in>set p. \<not> is_space c" "\<exists>c\<in>set q. \<not> is_space c"
  shows "sublist m (strip (p @ m @ q))"
proof -
  from assms(1) obtain w1 a p' where p: "p = w1 @ a # p'" "\<not> is_space a"
    "\<forall>c\<in>set w1. \<not> \<not> is_space c"
    using split_list_first_prop [of p "\<lambda>c. \<not> is_space c"] by blast
  from assms(2) obtain q' b w2 where q: "q = q' @ b # w2" "\<not> is_space b"
    "\<forall>c\<in>set w2. \<not> \<not> is_space c"
    using split_list_last_prop [of q "\<lambda>c. \<not> is_space c"] by blast
  have "strip (w1 @ a # (p' @ m @ q') @ b # w2) = a # (p' @ m @ q') @ [b]"
    using p(2,3) q(2,3) by (intro strip_core) auto
  then have "strip (p @ m @ q) = (a # p') @ m @ (q' @ [b])"
    by (simp add: p(1) q(1))
  then show ?thesis
    unfolding sublist_def by blast
qed

lemma digits_not_Nil: "digits n \<noteq> []"
  by (subst digits.simps) simp

lemma digits_seven: "digits n = ''7'' \<longleftrightarrow> n = 7"
proof (cases "n < 10")
  case True
  then have "n \<in> set [0..<10]" by simp
  moreover have "\<forall>k\<in>set [0..<10]. (digits k = ''7'') = (k = 7)"
    by code_simp
  ultimately show ?thesis by blast
next
  case False
  then have "digits n = digits (n div 10) @ [char_of (48 + n mod 10)]"
    by (subst digits.simps) simp
  with False show ?thesis
    using digits_not_Nil [of "n div 10"] by (cases "digits (n div 10)") auto
qed

lemma py_str_seven: "py_str n = ''7'' \<longleftrightarrow> n = 7"
proof (cases "n < 0")
  case True
  then show ?thesis by (simp add: py_str_def)
next
  case False
  then have "py_str n = ''7'' \<longleftrightarrow> nat n = 7"
    by (simp add: py_str_def digits_seven)
  with False show ?thesis by auto
qed

lemma prompt_intro_text: "\<exists>c\<in>set prompt_intro. \<not> is_space c"
proof -
  have "CHR ''Y'' \<in> set prompt_intro" by (simp add: prompt_intro_def)
  moreover have "\<not> is_space CHR ''Y''" by (simp add: is_space_def)
  ultimately show ?thesis by blast
qed

lemma prompt_rules_text: "\<exists>c\<in>set (prompt_rules st). \<not> is_space c"
proof -
  have "CHR ''F'' \<in> set (prompt_rules st)" by (simp add: prompt_rules_def)
  moreover have "\<not> is_space CHR ''F''" by (simp add: is_space_def)
  ultimately show ?thesis by blast
qed

lemma prompt_layout_text: "\<exists>c\<in>set (prompt_layout lb). \<not> is_space c"
proof -
  have "CHR ''T'' \<in> set (prompt_layout lb)" by (simp add: prompt_layout_def)
  moreover have "\<not> is_space CHR ''T''" by (simp add: is_space_def)
  ultimately show ?thesis by blast
qed

text \<open>
  C10. For every value of \<open>meals_per_week\<close> and every list of links, the prompt contains
  the instruction line with the fixed word \<^verbatim>\<open>Seven\<close> followed by \<^verbatim>\<open>(exactly N)\<close>, \<open>N\<close> being
  \<open>meals_per_week\<close> in decimal, and the line asking for a list numbered up to \<open>N\<close>; \<open>N\<close>
  reads \<^verbatim>\<open>7\<close> only when \<open>meals_per_week\<close> is 7. With an API key in place, this prompt is
  the content of the one request the call makes.
\<close>

theorem prompt_says_seven:
  "sublist (''1) Seven *suggestions* for dinners (exactly '' @ py_str meals_per_week @ '').'')
     (build_prompt link_metas meals_per_week)
   \<and> sublist (''- Then suggestions as a numbered list 1..'' @ py_str meals_per_week @ '', each on ONE line:'')
     (build_prompt link_metas meals_per_week)
   \<and> (py_str meals_per_week = ''7'' \<longleftrightarrow> meals_per_week = 7)
   \<and> (strip (getenv w ''OPENAI_API_KEY'' []) \<noteq> [] \<longrightarrow>
        (\<exists>a k req t. snd (call_openai_suggestions w link_metas meals_per_week) = [HttpPost a k req t]
           \<and> input_content req = build_prompt link_metas meals_per_week))"
proof -
  let ?n = "py_str meals_per_week"
  let ?st = "join '', '' staples"
  let ?lb = "links_block link_metas"
  let ?seven = "''1) Seven *suggestions* for dinners (exactly '' @ ?n @ '').''"
  let ?list = "''- Then suggestions as a numbered list 1..'' @ ?n @ '', each on ONE line:''"
  have one: "prompt_template ?n ?st ?lb =
      prompt_intro @ ?seven
      @ (''\<newline>'' @ prompt_rules ?st @ ?list @ ''\<newline>'' @ prompt_layout ?lb)"
    by (simp add: prompt_template_def)
  have two: "prompt_template ?n ?st ?lb =
      (prompt_intro @ ?seven @ ''\<newline>'' @ prompt_rules ?st) @ ?list
      @ (''\<newline>'' @ prompt_layout ?lb)"
    by (simp add: prompt_template_def)
  have "sublist ?seven (strip (prompt_template ?n ?st ?lb))"
    unfolding one using prompt_intro_text prompt_rules_text
    by (intro sublist_strip) auto
  moreover have "sublist ?list (strip (prompt_template ?n ?st ?lb))"
    unfolding two using prompt_intro_text prompt_layout_text
    by (intro sublist_strip) auto
  moreover have "\<exists>a k req t. snd (call_openai_suggestions w link_metas meals_per_week) = [HttpPost a k req t]
           \<and> input_content req = build_prompt link_metas meals_per_week"
    if "strip (getenv w ''OPENAI_API_KEY'' []) \<noteq> []"
    using that by (simp add: call_openai_suggestions_def Let_def)
  ultimately show ?thesis
    using py_str_seven [of meals_per_week] unfolding build_prompt_def by blast
qed

theorem prompt_says_seven_witness:
  "sublist ''1) Seven *suggestions* for dinners (exactly 3).''
     (build_prompt [\<lparr>url = ''http://a.example/chicken'', title = ''Roast Chicken''\<rparr>] 3)
   \<and> (\<exists>a k req t. snd (call_openai_suggestions
          (example_world example_env example_lines GetRaises PostRaises)
          [\<lparr>url = ''http://a.example/chicken'', title = ''Roast Chicken''\<rparr>] 3) = [HttpPost a k req t]
        \<and> input_content req = build_prompt [\<lparr>url = ''http://a.example/chicken'', title = ''Roast Chicken''\<rparr>] 3)"
proof -
  let ?w = "example_world example_env example_lines GetRaises PostRaises"
  have key: "strip (getenv ?w ''OPENAI_API_KEY'' []) \<noteq> []"
    by code_simp
  have three: "py_str 3 = ''3''"
    by code_simp
  show ?thesis
    using prompt_says_seven [of 3 "[\<lparr>url = ''http://a.example/chicken'', title = ''Roast Chicken''\<rparr>]" ?w]
      key three
    by simp
qed

end
